theory Spec2Isabelle
  imports Complex_Main
begin

section \<open>Data model\<close>

text \<open>
  The service keeps a catalog of products in one JSON document. The document is a JSON
  object from category names to arrays of product objects; Python's \<open>json.load\<close> turns
  it into a \<open>dict\<close> that iterates in document order, so the catalog is an association
  list (a \<open>dict\<close> has every key once; no property below depends on it). A Python string
  is written as its UTF-8 bytes. The Pydantic classes \<open>StockItem\<close> and \<open>Product\<close> of the source give the fields;
  the field names carry a prefix because \<open>id\<close> and \<open>image\<close> are constants of HOL.
\<close>

record StockItem =
  license :: string

record Product =
  p_id :: int
  p_name :: string
  p_image :: string
  p_imagehover :: "string option"
  p_description :: string
  p_price :: real
  p_delivery_method :: string
  p_stock :: "StockItem list"

type_synonym Catalog = "(string \<times> Product list) list"

text \<open>\<open>HTTPException(status_code, detail)\<close>.\<close>

datatype http_error = HTTPException int string

fun status_code :: "http_error \<Rightarrow> int" where
  "status_code (HTTPException s d) = s"

fun detail :: "http_error \<Rightarrow> string" where
  "detail (HTTPException s d) = d"

subsection \<open>Formatting of integers and of the clock\<close>

definition digit :: "nat \<Rightarrow> char" where
  "digit n = ''0123456789'' ! (n mod 10)"

fun str_nat :: "nat \<Rightarrow> string" where
  "str_nat n = (if n < 10 then [digit n] else str_nat (n div 10) @ [digit n])"

declare str_nat.simps [simp del]

text \<open>Python's \<open>str\<close> of an \<open>int\<close>, as the f-strings of the handlers use it.\<close>

definition str_int :: "int \<Rightarrow> string" where
  "str_int i = (if i < 0 then ''-'' @ str_nat (nat (- i)) else str_nat (nat i))"

text \<open>\<open>'%0wd'\<close>: decimal digits, padded on the left with zeros to width \<open>w\<close>.\<close>

definition zfill :: "nat \<Rightarrow> nat \<Rightarrow> string" where
  "zfill w n = replicate (w - length (str_nat n)) CHR ''0'' @ str_nat n"

text \<open>The value of \<open>datetime.now()\<close>; each request reads the clock at most once.\<close>

record datetime =
  dt_year :: nat
  dt_month :: nat
  dt_day :: nat
  dt_hour :: nat
  dt_minute :: nat
  dt_second :: nat
  dt_microsecond :: nat

text \<open>\<open>strftime("%Y%m%d_%H%M%S")\<close>.\<close>

definition strftime_backup :: "datetime \<Rightarrow> string" where
  "strftime_backup t =
     zfill 4 (dt_year t) @ zfill 2 (dt_month t) @ zfill 2 (dt_day t) @ ''_'' @
     zfill 2 (dt_hour t) @ zfill 2 (dt_minute t) @ zfill 2 (dt_second t)"

text \<open>\<open>isoformat()\<close>: the fraction is printed only when the microsecond is not zero.\<close>

definition isoformat :: "datetime \<Rightarrow> string" where
  "isoformat t =
     zfill 4 (dt_year t) @ ''-'' @ zfill 2 (dt_month t) @ ''-'' @ zfill 2 (dt_day t) @ ''T'' @
     zfill 2 (dt_hour t) @ '':'' @ zfill 2 (dt_minute t) @ '':'' @ zfill 2 (dt_second t) @
     (if dt_microsecond t = 0 then [] else ''.'' @ zfill 6 (dt_microsecond t))"

text \<open>
  A well-formed clock value, as \<open>datetime.now()\<close> gives it on a machine whose year has
  four digits.
\<close>

definition valid_datetime :: "datetime \<Rightarrow> bool" where
  "valid_datetime t \<longleftrightarrow>
     1000 \<le> dt_year t \<and> dt_year t \<le> 9999 \<and> 1 \<le> dt_month t \<and> dt_month t \<le> 12 \<and>
     1 \<le> dt_day t \<and> dt_day t \<le> 31 \<and> dt_hour t \<le> 23 \<and> dt_minute t \<le> 59 \<and>
     dt_second t \<le> 59 \<and> dt_microsecond t \<le> 999999"

section \<open>The store\<close>

text \<open>
  \<open>str\<close> of an \<open>HTTPException\<close> is \<open>"{status_code}: {detail}"\<close> (Starlette); it is what
  an \<open>except Exception as e\<close> clause puts into its own message when it catches one.
\<close>

definition exc_str :: "http_error \<Rightarrow> string" where
  "exc_str e = str_int (status_code e) @ '': '' @ detail e"

text \<open>
  The file system holds the primary file \<open>data/stock.json\<close> (absent, or its bytes) and the
  directory \<open>data/backups\<close> (file name to bytes). \<open>written\<close> records every file the
  program has opened for writing, with the contents it was left with, oldest first; it
  is a history, not something the program reads. Failures of the file system itself
  (a disk that is full, a path without permission) are outside the model.
\<close>

datatype fs_write = Backup_Write string string | Primary_Write string

record fs =
  stock_file :: "string option"
  backup_dir :: "string \<Rightarrow> string option"
  written :: "fs_write list"

text \<open>
  What Python's library does is a parameter where it depends on the JSON text or on the
  platform:
  \<^item> \<open>dump data\<close> is \<open>json.dump(data, f, indent=2, ensure_ascii=False)\<close> on a file opened
    for writing with UTF-8: either it returns and the file holds the serialised catalog,
    or it raises (a string with a lone surrogate cannot be encoded) and the file is left
    with what had been written before, together with the text of the exception;
  \<^item> \<open>load\<close> is \<open>json.load\<close> on the file opened with UTF-8: the text of the exception it
    raises, or the catalog;
  \<^item> \<open>decode_error\<close> is the exception, if any, of reading a file as text in the
    encoding of the locale, as \<open>open(STOCK_FILE, 'r').read()\<close> does.
  The document that is loaded is taken to have the shape the handlers expect.
\<close>

datatype dumped = Dumped string | Dump_Raises string string

record library =
  dump :: "Catalog \<Rightarrow> dumped"
  load :: "string \<Rightarrow> string + Catalog"
  decode_error :: "string \<Rightarrow> string option"

text \<open>
  A file read in text mode has its line ends translated: carriage return followed by
  line feed, and a carriage return alone, become a line feed. Written in text mode on
  a POSIX system, a line feed stays a line feed. (The encoding is taken to keep these
  two bytes apart from all others, as UTF-8 and the other encodings of a locale do.)
\<close>

definition CR :: char where
  "CR = CHR 0x0D"

definition LF :: char where
  "LF = CHR 0x0A"

fun universal_newlines :: "string \<Rightarrow> string" where
  "universal_newlines [] = []"
| "universal_newlines [c] = (if c = CR then [LF] else [c])"
| "universal_newlines (c # d # cs) =
     (if c = CR \<and> d = LF then LF # universal_newlines cs
      else if c = CR then LF # universal_newlines (d # cs)
      else c # universal_newlines (d # cs))"

declare universal_newlines.simps [simp del]

text \<open>
  The default catalog of \<open>load_stock_data\<close>; its two products are named here so that they
  can be referred to.
\<close>

definition blood_strike :: Product where
  "blood_strike =
     \<lparr> p_id = 1,
       p_name = ''Blood Strike Account'',
       p_image = ''https://pic.bittopup.com/apiUpload/2ccf31c25175abf452e9766912a42c73.jpg'',
       p_imagehover = Some ''https://imgop.itemku.com/?url=https%3A%2F%2Fd1x91p7vw3vuq8.cloudfront.net%2Fitemku-upload%2F2025715%2Fbu7sesjsnbxx2ftm9kc8q_thumbnail.jpg&w=1033&q=10'',
       p_description = ''Best Account BloodStrike'',
       p_price = 10,
       p_delivery_method = ''instant'',
       p_stock = [\<lparr> license = ''email@example.com:password123'' \<rparr>,
                  \<lparr> license = ''email2@example.com:password456'' \<rparr>] \<rparr>"

definition window_protection :: Product where
  "window_protection =
     \<lparr> p_id = 2,
       p_name = ''Window Protection'',
       p_image = ''https://pic.bittopup.com/apiUpload/2ccf31c25175abf452e9766912a42c73.jpg'',
       p_imagehover = Some ''https://encrypted-tbn0.gstatic.com/images?q=tbn:ANd9GcQ4NOVVkcMqtvEutXTu_StAuIwGGvO9DevFkg&s'',
       p_description = ''Best Window Protection'',
       p_price = 30,
       p_delivery_method = ''Waiting'',
       p_stock = [\<lparr> license = ''email@example.com:password123'' \<rparr>,
                  \<lparr> license = ''email2@example.com:password456'' \<rparr>,
                  \<lparr> license = ''email2@example.com:password456'' \<rparr>,
                  \<lparr> license = ''email2@example.com:password456'' \<rparr>] \<rparr>"

definition default_data :: Catalog where
  "default_data =
     [(''BloodStrike'', [blood_strike]), (''Window Protection 11'', [window_protection])]"

definition backup_file :: "datetime \<Rightarrow> string" where
  "backup_file t = ''stock_backup_'' @ strftime_backup t @ ''.json''"

definition write_backup :: "string \<Rightarrow> string \<Rightarrow> fs \<Rightarrow> fs" where
  "write_backup f b s =
     s\<lparr> backup_dir := (backup_dir s)(f \<mapsto> b), written := written s @ [Backup_Write f b] \<rparr>"

definition write_primary :: "string \<Rightarrow> fs \<Rightarrow> fs" where
  "write_primary b s = s\<lparr> stock_file := Some b, written := written s @ [Primary_Write b] \<rparr>"

text \<open>
  The first part of \<open>save_stock_data\<close>: when the primary file exists, it is opened for
  reading and the backup file for writing, both as text, and what is read from the one is
  written to the other. When the read raises, the backup file has been created and is
  empty. The result is the text of the exception, if any.
\<close>

definition create_backup :: "library \<Rightarrow> datetime \<Rightarrow> fs \<Rightarrow> string option \<times> fs" where
  "create_backup lib now s =
     (case stock_file s of
        None \<Rightarrow> (None, s)
      | Some original \<Rightarrow>
          (case decode_error lib original of
             Some e \<Rightarrow> (Some e, write_backup (backup_file now) [] s)
           | None \<Rightarrow> (None, write_backup (backup_file now) (universal_newlines original) s)))"

definition save_failed :: "string \<Rightarrow> http_error" where
  "save_failed e = HTTPException 500 (''Error saving stock data: '' @ e)"

text \<open>
  \<open>save_stock_data\<close>: the backup, then the primary file is opened for writing and the
  catalog dumped into it; \<open>True\<close> is returned. Any exception on the way becomes an
  \<open>HTTPException\<close> with status 500; the files stay as they were at that moment.
\<close>

definition save_stock_data ::
  "library \<Rightarrow> datetime \<Rightarrow> Catalog \<Rightarrow> fs \<Rightarrow> (http_error + bool) \<times> fs" where
  "save_stock_data lib now data s =
     (case create_backup lib now s of
        (Some e, s1) \<Rightarrow> (Inl (save_failed e), s1)
      | (None, s1) \<Rightarrow>
          (case dump lib data of
             Dumped b \<Rightarrow> (Inr True, write_primary b s1)
           | Dump_Raises partial e \<Rightarrow> (Inl (save_failed e), write_primary partial s1)))"

definition load_failed :: "string \<Rightarrow> http_error" where
  "load_failed e = HTTPException 500 (''Error loading stock data: '' @ e)"

text \<open>
  \<open>load_stock_data\<close>: the parsed document when the file exists, otherwise the default
  catalog, saved first. An exception of the parser, and the \<open>HTTPException\<close> of a save
  that failed, become an \<open>HTTPException\<close> with status 500.
\<close>

definition load_stock_data :: "library \<Rightarrow> datetime \<Rightarrow> fs \<Rightarrow> (http_error + Catalog) \<times> fs" where
  "load_stock_data lib now s =
     (case stock_file s of
        Some b \<Rightarrow>
          (case load lib b of
             Inl e \<Rightarrow> (Inl (load_failed e), s)
           | Inr data \<Rightarrow> (Inr data, s))
      | None \<Rightarrow>
          (case save_stock_data lib now default_data s of
             (Inl e, s') \<Rightarrow> (Inl (load_failed (exc_str e)), s')
           | (Inr saved, s') \<Rightarrow> (Inr default_data, s')))"

section \<open>The request handlers\<close>

text \<open>
  Every handler takes the clock value of the request and the file system and gives its
  result, an error or a response, together with the file system it leaves behind. The
  handlers with a single \<open>except Exception\<close> clause wrap the error of a failed load once
  more; those with an \<open>except HTTPException: raise\<close> clause pass it on.
\<close>

datatype health_response =
  Healthy string string
| Unhealthy string

definition health_check :: "library \<Rightarrow> datetime \<Rightarrow> fs \<Rightarrow> health_response \<times> fs" where
  "health_check lib now s =
     (case load_stock_data lib now s of
        (Inl e, s') \<Rightarrow> (Unhealthy (exc_str e), s')
      | (Inr stock_data, s') \<Rightarrow> (Healthy (isoformat now) ''Product Stock API'', s'))"

subsection \<open>Listing products\<close>

text \<open>The loop of \<open>get_all_products\<close>, with \<open>all_products\<close> as its accumulator.\<close>

fun extend_all :: "Catalog \<Rightarrow> Product list \<Rightarrow> Product list" where
  "extend_all [] all_products = all_products"
| "extend_all ((category, products) # rest) all_products =
     extend_all rest (all_products @ products)"

definition get_all_products ::
  "library \<Rightarrow> datetime \<Rightarrow> fs \<Rightarrow> (http_error + Product list) \<times> fs" where
  "get_all_products lib now s =
     (case load_stock_data lib now s of
        (Inl e, s') \<Rightarrow> (Inl (HTTPException 500 (exc_str e)), s')
      | (Inr stock_data, s') \<Rightarrow> (Inr (extend_all stock_data []), s'))"

subsection \<open>One product\<close>

text \<open>
  The two nested loops of \<open>get_product\<close>: the inner one over the products of a category,
  the outer one over the categories; the first product with the id is returned.
\<close>

fun get_product_in :: "int \<Rightarrow> Product list \<Rightarrow> Product option" where
  "get_product_in product_id [] = None"
| "get_product_in product_id (product # products) =
     (if p_id product = product_id then Some product
      else get_product_in product_id products)"

fun get_product_scan :: "int \<Rightarrow> Catalog \<Rightarrow> Product option" where
  "get_product_scan product_id [] = None"
| "get_product_scan product_id ((category, products) # rest) =
     (case get_product_in product_id products of
        Some product \<Rightarrow> Some product
      | None \<Rightarrow> get_product_scan product_id rest)"

definition not_found :: "int \<Rightarrow> http_error" where
  "not_found product_id =
     HTTPException 404 (''Product with ID '' @ str_int product_id @ '' not found'')"

definition get_product ::
  "library \<Rightarrow> datetime \<Rightarrow> int \<Rightarrow> fs \<Rightarrow> (http_error + Product) \<times> fs" where
  "get_product lib now product_id s =
     (case load_stock_data lib now s of
        (Inl e, s') \<Rightarrow> (Inl e, s')
      | (Inr stock_data, s') \<Rightarrow>
          (case get_product_scan product_id stock_data of
             Some product \<Rightarrow> (Inr product, s')
           | None \<Rightarrow> (Inl (not_found product_id), s')))"

subsection \<open>Categories\<close>

record category_entry =
  ce_name :: string
  ce_product_count :: nat

fun categories_loop :: "Catalog \<Rightarrow> category_entry list \<Rightarrow> category_entry list" where
  "categories_loop [] categories = categories"
| "categories_loop ((category_name, products) # rest) categories =
     categories_loop rest
       (categories @ [\<lparr> ce_name = category_name, ce_product_count = length products \<rparr>])"

definition get_categories ::
  "library \<Rightarrow> datetime \<Rightarrow> fs \<Rightarrow> (http_error + category_entry list) \<times> fs" where
  "get_categories lib now s =
     (case load_stock_data lib now s of
        (Inl e, s') \<Rightarrow> (Inl (HTTPException 500 (exc_str e)), s')
      | (Inr stock_data, s') \<Rightarrow> (Inr (categories_loop stock_data []), s'))"

record category_response =
  cr_category :: string
  cr_products :: "Product list"

definition get_products_by_category ::
  "library \<Rightarrow> datetime \<Rightarrow> string \<Rightarrow> fs \<Rightarrow> (http_error + category_response) \<times> fs" where
  "get_products_by_category lib now category_name s =
     (case load_stock_data lib now s of
        (Inl e, s') \<Rightarrow> (Inl e, s')
      | (Inr stock_data, s') \<Rightarrow>
          (case map_of stock_data category_name of
             None \<Rightarrow>
               (Inl (HTTPException 404 (''Category '' @ [CHR 39] @ category_name @ [CHR 39] @ '' not found'')), s')
           | Some products \<Rightarrow>
               (Inr \<lparr> cr_category = category_name, cr_products = products \<rparr>, s')))"

subsection \<open>Stock of a product\<close>

record stock_response =
  sr_product_id :: int
  sr_product_name :: string
  sr_category :: string
  sr_stock_count :: nat
  sr_available :: bool
  sr_delivery_method :: string

fun get_product_stock_in :: "int \<Rightarrow> string \<Rightarrow> Product list \<Rightarrow> stock_response option" where
  "get_product_stock_in product_id category [] = None"
| "get_product_stock_in product_id category (product # products) =
     (if p_id product = product_id then
        Some \<lparr> sr_product_id = product_id,
               sr_product_name = p_name product,
               sr_category = category,
               sr_stock_count = length (p_stock product),
               sr_available = (length (p_stock product) > 0),
               sr_delivery_method = p_delivery_method product \<rparr>
      else get_product_stock_in product_id category products)"

fun get_product_stock_scan :: "int \<Rightarrow> Catalog \<Rightarrow> stock_response option" where
  "get_product_stock_scan product_id [] = None"
| "get_product_stock_scan product_id ((category, products) # rest) =
     (case get_product_stock_in product_id category products of
        Some r \<Rightarrow> Some r
      | None \<Rightarrow> get_product_stock_scan product_id rest)"

definition get_product_stock ::
  "library \<Rightarrow> datetime \<Rightarrow> int \<Rightarrow> fs \<Rightarrow> (http_error + stock_response) \<times> fs" where
  "get_product_stock lib now product_id s =
     (case load_stock_data lib now s of
        (Inl e, s') \<Rightarrow> (Inl e, s')
      | (Inr stock_data, s') \<Rightarrow>
          (case get_product_stock_scan product_id stock_data of
             Some r \<Rightarrow> (Inr r, s')
           | None \<Rightarrow> (Inl (not_found product_id), s')))"

subsection \<open>Consuming one stock item\<close>

text \<open>
  The loops of \<open>consume_stock_item\<close> leave at the first product with the id: with a
  response when its stock is not empty, with status 400 when it is. \<open>pop(0)\<close> changes the
  product inside the loaded catalog, so the scan gives back the catalog as changed;
  the handler saves that catalog and, when the save has returned, builds the response
  from the changed product; the \<open>HTTPException\<close> of a save that failed is passed on.
\<close>

datatype 'a scan = Continue | Raise http_error | Return 'a

fun consume_in ::
  "int \<Rightarrow> Product list \<Rightarrow> (Product list \<times> Product \<times> StockItem) scan" where
  "consume_in product_id [] = Continue"
| "consume_in product_id (product # products) =
     (if p_id product = product_id then
        (case p_stock product of
           consumed_license # remaining \<Rightarrow>
             Return ((product\<lparr> p_stock := remaining \<rparr>) # products,
                     product\<lparr> p_stock := remaining \<rparr>, consumed_license)
         | [] \<Rightarrow>
             Raise (HTTPException 400 (''Product '' @ p_name product @ '' is out of stock'')))
      else
        (case consume_in product_id products of
           Return (products', product', consumed_license) \<Rightarrow>
             Return (product # products', product', consumed_license)
         | Raise e \<Rightarrow> Raise e
         | Continue \<Rightarrow> Continue))"

fun consume_scan ::
  "int \<Rightarrow> Catalog \<Rightarrow> (Catalog \<times> string \<times> Product \<times> StockItem) scan" where
  "consume_scan product_id [] = Continue"
| "consume_scan product_id ((category, products) # rest) =
     (case consume_in product_id products of
        Return (products', product', consumed_license) \<Rightarrow>
          Return ((category, products') # rest, category, product', consumed_license)
      | Raise e \<Rightarrow> Raise e
      | Continue \<Rightarrow>
          (case consume_scan product_id rest of
             Return (rest', found) \<Rightarrow> Return ((category, products) # rest', found)
           | Raise e \<Rightarrow> Raise e
           | Continue \<Rightarrow> Continue))"

record consume_response =
  co_success :: bool
  co_product_id :: int
  co_product_name :: string
  co_category :: string
  co_consumed_license :: StockItem
  co_remaining_stock :: nat
  co_message :: string

definition consume_stock_item ::
  "library \<Rightarrow> datetime \<Rightarrow> int \<Rightarrow> fs \<Rightarrow> (http_error + consume_response) \<times> fs" where
  "consume_stock_item lib now product_id s =
     (case load_stock_data lib now s of
        (Inl e, s') \<Rightarrow> (Inl e, s')
      | (Inr stock_data, s') \<Rightarrow>
          (case consume_scan product_id stock_data of
             Return (stock_data', category, product, consumed_license) \<Rightarrow>
               (case save_stock_data lib now stock_data' s' of
                  (Inl e, s'') \<Rightarrow> (Inl e, s'')
                | (Inr saved, s'') \<Rightarrow>
                    (Inr \<lparr> co_success = True,
                           co_product_id = product_id,
                           co_product_name = p_name product,
                           co_category = category,
                           co_consumed_license = consumed_license,
                           co_remaining_stock = length (p_stock product),
                           co_message = ''Stock item consumed successfully'' \<rparr>, s''))
           | Raise e \<Rightarrow> (Inl e, s')
           | Continue \<Rightarrow> (Inl (not_found product_id), s')))"

subsection \<open>Dashboard\<close>

record low_stock_entry =
  ls_id :: int
  ls_name :: string
  ls_category :: string
  ls_stock_count :: nat
  ls_price :: real

record dashboard_response =
  da_total_categories :: nat
  da_total_products :: nat
  da_total_stock_items :: nat
  da_low_stock_products :: "low_stock_entry list"
  da_low_stock_count :: nat
  da_updated_at :: string

text \<open>
  The loops of \<open>get_dashboard_stats\<close>; the state of the inner loop is \<open>total_stock\<close> and
  \<open>low_stock_products\<close>, the outer loop has \<open>total_products\<close> as well.
\<close>

fun dashboard_in ::
  "string \<Rightarrow> Product list \<Rightarrow> nat \<times> low_stock_entry list \<Rightarrow> nat \<times> low_stock_entry list" where
  "dashboard_in category [] acc = acc"
| "dashboard_in category (product # products) (total_stock, low_stock_products) =
     (let stock_count = length (p_stock product) in
      dashboard_in category products
        (total_stock + stock_count,
         if stock_count \<le> 3 then
           low_stock_products @
             [\<lparr> ls_id = p_id product, ls_name = p_name product, ls_category = category,
                ls_stock_count = stock_count, ls_price = p_price product \<rparr>]
         else low_stock_products))"

fun dashboard_loop ::
  "Catalog \<Rightarrow> nat \<times> nat \<times> low_stock_entry list \<Rightarrow> nat \<times> nat \<times> low_stock_entry list" where
  "dashboard_loop [] acc = acc"
| "dashboard_loop ((category, products) # rest) (total_products, inner) =
     dashboard_loop rest (total_products + length products, dashboard_in category products inner)"

definition get_dashboard_stats ::
  "library \<Rightarrow> datetime \<Rightarrow> fs \<Rightarrow> (http_error + dashboard_response) \<times> fs" where
  "get_dashboard_stats lib now s =
     (case load_stock_data lib now s of
        (Inl e, s') \<Rightarrow> (Inl (HTTPException 500 (exc_str e)), s')
      | (Inr stock_data, s') \<Rightarrow>
          (case dashboard_loop stock_data (0, 0, []) of
             (total_products, total_stock, low_stock_products) \<Rightarrow>
               (Inr \<lparr> da_total_categories = length stock_data,
                      da_total_products = total_products,
                      da_total_stock_items = total_stock,
                      da_low_stock_products = low_stock_products,
                      da_low_stock_count = length low_stock_products,
                      da_updated_at = isoformat now \<rparr>, s')))"

section \<open>Notions used to state the properties\<close>

text \<open>
  The products of a catalog in the order in which the nested loops of the handlers visit
  them (categories in document order, products in the order of their array), each with
  the category that owns it, and without it.
\<close>

definition located :: "Catalog \<Rightarrow> (string \<times> Product) list" where
  "located cat = concat (map (\<lambda>(category, products). map (Pair category) products) cat)"

definition all_products :: "Catalog \<Rightarrow> Product list" where
  "all_products cat = concat (map snd cat)"

text \<open>The category names in order, each with the number of its products.\<close>

definition shape :: "Catalog \<Rightarrow> (string \<times> nat) list" where
  "shape cat = map (\<lambda>(category, products). (category, length products)) cat"

text \<open>The first product with a given id in that order, and its position.\<close>

definition first_match :: "int \<Rightarrow> Catalog \<Rightarrow> (string \<times> Product) option" where
  "first_match product_id cat =
     List.find (\<lambda>(category, product). p_id product = product_id) (located cat)"

definition first_index :: "int \<Rightarrow> Catalog \<Rightarrow> nat" where
  "first_index product_id cat =
     length (takeWhile (\<lambda>(category, product). p_id product \<noteq> product_id) (located cat))"

definition out_of_stock :: "Product \<Rightarrow> http_error" where
  "out_of_stock product =
     HTTPException 400 (''Product '' @ p_name product @ '' is out of stock'')"

definition stock_summary :: "int \<Rightarrow> string \<times> Product \<Rightarrow> stock_response" where
  "stock_summary product_id cp =
     \<lparr> sr_product_id = product_id, sr_product_name = p_name (snd cp), sr_category = fst cp,
       sr_stock_count = length (p_stock (snd cp)), sr_available = (p_stock (snd cp) \<noteq> []),
       sr_delivery_method = p_delivery_method (snd cp) \<rparr>"

definition consumed :: "int \<Rightarrow> string \<Rightarrow> Product \<Rightarrow> StockItem \<Rightarrow> nat \<Rightarrow> consume_response" where
  "consumed product_id category product item remaining =
     \<lparr> co_success = True, co_product_id = product_id, co_product_name = p_name product,
       co_category = category, co_consumed_license = item, co_remaining_stock = remaining,
       co_message = ''Stock item consumed successfully'' \<rparr>"

text \<open>
  A client that sends one consume request for the same id at each of the given clock
  values, one after the other, and collects the results.
\<close>

fun consume_many ::
  "library \<Rightarrow> datetime list \<Rightarrow> int \<Rightarrow> fs \<Rightarrow> (http_error + consume_response) list \<times> fs" where
  "consume_many lib [] product_id s = ([], s)"
| "consume_many lib (now # nows) product_id s =
     (case consume_stock_item lib now product_id s of
        (r, s') \<Rightarrow>
          (case consume_many lib nows product_id s' of
             (rs, s'') \<Rightarrow> (r # rs, s'')))"

text \<open>
  The catalog with the product at position \<open>k\<close> of the loop order changed by \<open>f\<close>; a
  product without its first \<open>i\<close> stock items; and the catalog in which the first product
  with a given id has lost the first item of its stock.
\<close>

fun update_at :: "nat \<Rightarrow> (Product \<Rightarrow> Product) \<Rightarrow> Catalog \<Rightarrow> Catalog" where
  "update_at k f [] = []"
| "update_at k f ((category, products) # rest) =
     (if k < length products then (category, products[k := f (products ! k)]) # rest
      else (category, products) # update_at (k - length products) f rest)"

definition drop_stock :: "nat \<Rightarrow> Product \<Rightarrow> Product" where
  "drop_stock i product = product\<lparr> p_stock := drop i (p_stock product) \<rparr>"

definition popped :: "int \<Rightarrow> Catalog \<Rightarrow> Catalog" where
  "popped product_id cat = update_at (first_index product_id cat) (drop_stock 1) cat"

text \<open>
  What a dump leaves in the file. A catalog is read back when the library dumps it
  without raising, loads the result as the same catalog, and the result can be read as
  text in the locale's encoding. A file system holds a catalog when its primary file
  loads as that catalog and can be read as text, or when there is no primary file, the
  catalog is the default one and the default one is read back.
\<close>

fun dumped_bytes :: "dumped \<Rightarrow> string" where
  "dumped_bytes (Dumped b) = b"
| "dumped_bytes (Dump_Raises partial e) = partial"

definition reads_back :: "library \<Rightarrow> Catalog \<Rightarrow> bool" where
  "reads_back lib data =
     (case dump lib data of
        Dumped b \<Rightarrow> load lib b = Inr data \<and> decode_error lib b = None
      | Dump_Raises partial e \<Rightarrow> False)"

definition holds :: "library \<Rightarrow> fs \<Rightarrow> Catalog \<Rightarrow> bool" where
  "holds lib s data =
     (case stock_file s of
        Some b \<Rightarrow> load lib b = Inr data \<and> decode_error lib b = None
      | None \<Rightarrow> data = default_data \<and> reads_back lib default_data)"

text \<open>
  The file system the service leaves behind after a load: the one it found when the
  primary file exists, and otherwise the one in which the primary file has been written
  by the dump of the default catalog.
\<close>

definition after_load :: "library \<Rightarrow> fs \<Rightarrow> fs" where
  "after_load lib s =
     (case stock_file s of
        Some b \<Rightarrow> s
      | None \<Rightarrow> write_primary (dumped_bytes (dump lib default_data)) s)"

text \<open>The entry of the dashboard's low-stock list for a product of a category.\<close>

definition low_entry :: "string \<times> Product \<Rightarrow> low_stock_entry" where
  "low_entry cp =
     \<lparr> ls_id = p_id (snd cp), ls_name = p_name (snd cp), ls_category = fst cp,
       ls_stock_count = length (p_stock (snd cp)), ls_price = p_price (snd cp) \<rparr>"

definition low_stock :: "Product \<Rightarrow> bool" where
  "low_stock product \<longleftrightarrow> length (p_stock product) \<le> 3"

subsection \<open>Concrete inputs\<close>

text \<open>
  Clock values, small catalogs (\<open>twins\<close> and the default catalog, each also with one and
  with two stock items removed from a product), and an instance of the library parameters given by a
  table of documents. In the instance a dump raises when a string of the catalog has a
  lone surrogate (for U+D800 to U+DFFF the bytes are \<open>ED\<close>, then a byte from \<open>A0\<close> on), as
  \<open>json.dump\<close> with \<open>ensure_ascii=False\<close> does on a UTF-8 file, after the opening brace has
  been written; and a file cannot be read as text when it has the byte \<open>FF\<close>. The two
  documents of the empty catalog are JSON; the other documents of the table stand for
  the JSON texts of their catalogs.
\<close>

definition clock0 :: datetime where
  "clock0 = \<lparr> dt_year = 2025, dt_month = 7, dt_day = 15, dt_hour = 9, dt_minute = 30,
              dt_second = 5, dt_microsecond = 0 \<rparr>"

definition clock1 :: datetime where
  "clock1 = \<lparr> dt_year = 2025, dt_month = 7, dt_day = 15, dt_hour = 9, dt_minute = 30,
              dt_second = 6, dt_microsecond = 250 \<rparr>"

definition key :: "int \<Rightarrow> string \<Rightarrow> string list \<Rightarrow> Product" where
  "key i n ls =
     \<lparr> p_id = i, p_name = n, p_image = ''a.png'', p_imagehover = None, p_description = ''d'',
       p_price = 5, p_delivery_method = ''instant'',
       p_stock = map (\<lambda>l. \<lparr> license = l \<rparr>) ls \<rparr>"

definition twins :: Catalog where
  "twins = [(''A'', [key 3 ''x'' [], key 7 ''first'' [''k1'', ''k2'']]),
            (''B'', [key 7 ''second'' [''k3'']])]"

definition twins_1 :: Catalog where
  "twins_1 = [(''A'', [key 3 ''x'' [], key 7 ''first'' [''k2'']]),
              (''B'', [key 7 ''second'' [''k3'']])]"

definition twins_2 :: Catalog where
  "twins_2 = [(''A'', [key 3 ''x'' [], key 7 ''first'' []]),
              (''B'', [key 7 ''second'' [''k3'']])]"

definition seed_1 :: Catalog where
  "seed_1 = [(''BloodStrike'', [drop_stock 1 blood_strike]),
             (''Window Protection 11'', [window_protection])]"

definition seed_2 :: Catalog where
  "seed_2 = [(''BloodStrike'', [drop_stock 2 blood_strike]),
             (''Window Protection 11'', [window_protection])]"

definition surrogate :: string where
  "surrogate = [CHR 0xED, CHR 0xA0, CHR 0x80]"

definition tainted :: Catalog where
  "tainted = [(''A'', [key 7 ''first'' [''k1'', surrogate]])]"

definition tainted_twins :: Catalog where
  "tainted_twins = [(''A'', [key 7 ''first'' [''k1'']]), (''B'', [key 7 ''second'' [surrogate]])]"

fun has_surrogate :: "string \<Rightarrow> bool" where
  "has_surrogate (a # b # cs) =
     ((a = CHR 0xED \<and> (0xA0 :: nat) \<le> of_char b) \<or> has_surrogate (b # cs))"
| "has_surrogate cs = False"

definition strings_of :: "Catalog \<Rightarrow> string list" where
  "strings_of cat =
     concat (map (\<lambda>(category, products).
       category #
       concat (map (\<lambda>p.
         [p_name p, p_image p, p_description p, p_delivery_method p] @
         (case p_imagehover p of None \<Rightarrow> [] | Some h \<Rightarrow> [h]) @
         map license (p_stock p)) products)) cat)"

definition known :: "(string \<times> Catalog) list" where
  "known =
     [(''{}'', []),
      (''{'' @ [CR, LF] @ ''}'', []),
      (''seed'', default_data),
      (''seed-1'', seed_1),
      (''seed-2'', seed_2),
      (''twins'', twins),
      (''twins-1'', twins_1),
      (''twins-2'', twins_2),
      (''tainted'', tainted),
      (''tainted twins'', tainted_twins)]"

definition table :: library where
  "table =
     \<lparr> dump = (\<lambda>data.
         if list_ex has_surrogate (strings_of data)
         then Dump_Raises ''{'' ''surrogates not allowed''
         else (case List.find (\<lambda>kc. snd kc = data) known of
                 Some kc \<Rightarrow> Dumped (fst kc)
               | None \<Rightarrow> Dumped ''unlisted'')),
       load = (\<lambda>b. case map_of known b of
                      Some data \<Rightarrow> Inr data
                    | None \<Rightarrow> Inl ''Expecting value''),
       decode_error = (\<lambda>b. if CHR 0xFF \<in> set b then Some ''invalid start byte'' else None) \<rparr>"

definition file_of :: "string \<Rightarrow> fs" where
  "file_of b = \<lparr> stock_file = Some b, backup_dir = (\<lambda>f. None), written = [] \<rparr>"

definition no_file :: fs where
  "no_file = \<lparr> stock_file = None, backup_dir = (\<lambda>f. None), written = [] \<rparr>"

section \<open>Facts about lists and the scans\<close>

lemma located_Nil [simp]: "located [] = []"
  by (simp add: located_def)

lemma located_Cons [simp]: "located ((c, ps) # rest) = map (Pair c) ps @ located rest"
  by (simp add: located_def)

lemma find_append:
  "List.find P (xs @ ys) = (case List.find P xs of Some x \<Rightarrow> Some x | None \<Rightarrow> List.find P ys)"
  by (induction xs) auto

lemma find_map_Pair:
  "List.find (\<lambda>(c, p). Q p) (map (Pair c) ps) = map_option (Pair c) (List.find Q ps)"
  by (induction ps) auto

lemma get_product_in_find: "get_product_in pid ps = List.find (\<lambda>p. p_id p = pid) ps"
  by (induction ps) auto

lemma get_product_scan_first_match:
  "get_product_scan pid cat = map_option snd (first_match pid cat)"
proof (induction cat)
  case Nil
  show ?case by (simp add: first_match_def)
next
  case (Cons a cat)
  obtain c ps where a: "a = (c, ps)" by (cases a)
  show ?case using Cons
    by (simp add: a first_match_def find_append find_map_Pair get_product_in_find
        split: option.splits)
qed

lemma get_product_stock_in_find:
  "get_product_stock_in pid c ps =
     map_option (\<lambda>p. stock_summary pid (c, p)) (List.find (\<lambda>p. p_id p = pid) ps)"
  by (induction ps) (auto simp: stock_summary_def)

lemma get_product_stock_scan_first_match:
  "get_product_stock_scan pid cat = map_option (stock_summary pid) (first_match pid cat)"
proof (induction cat)
  case Nil
  show ?case by (simp add: first_match_def)
next
  case (Cons a cat)
  obtain c ps where a: "a = (c, ps)" by (cases a)
  show ?case using Cons
    by (simp add: a first_match_def find_append find_map_Pair get_product_stock_in_find
        split: option.splits)
qed

lemma consume_in_char:
  "consume_in pid ps =
     (case List.find (\<lambda>p. p_id p = pid) ps of
        None \<Rightarrow> Continue
      | Some p \<Rightarrow>
          (case p_stock p of
             [] \<Rightarrow> Raise (out_of_stock p)
           | l # r \<Rightarrow>
               Return (ps[length (takeWhile (\<lambda>p. p_id p \<noteq> pid) ps) := p\<lparr>p_stock := r\<rparr>],
                       p\<lparr>p_stock := r\<rparr>, l)))"
  by (induction ps) (auto simp: out_of_stock_def split: option.splits list.splits)

lemma takeWhile_map_Pair:
  "takeWhile (\<lambda>(c, p). Q p) (map (Pair c) ps) = map (Pair c) (takeWhile Q ps)"
  by (induction ps) auto

lemma find_None_takeWhile: "List.find P xs = None \<Longrightarrow> takeWhile (\<lambda>x. \<not> P x) xs = xs"
  by (induction xs) (auto split: if_splits)

lemma find_Some_takeWhile: "List.find P xs = Some x \<Longrightarrow> length (takeWhile (\<lambda>x. \<not> P x) xs) < length xs"
  by (induction xs) (auto split: if_splits)

lemma find_Some_ex: "List.find P xs = Some x \<Longrightarrow> x \<in> set xs \<and> P x"
  by (induction xs) (auto split: if_splits)

lemma first_match_Cons:
  "first_match pid ((c, ps) # rest) =
     (case List.find (\<lambda>p. p_id p = pid) ps of
        Some p \<Rightarrow> Some (c, p)
      | None \<Rightarrow> first_match pid rest)"
  by (simp add: first_match_def find_append find_map_Pair split: option.splits)

lemma first_index_Cons:
  "first_index pid ((c, ps) # rest) =
     (case List.find (\<lambda>p. p_id p = pid) ps of
        Some p \<Rightarrow> length (takeWhile (\<lambda>p. p_id p \<noteq> pid) ps)
      | None \<Rightarrow> length ps + first_index pid rest)"
proof (cases "List.find (\<lambda>p. p_id p = pid) ps")
  case None
  then have "\<forall>p\<in>set ps. p_id p \<noteq> pid" by (simp add: find_None_iff)
  then show ?thesis using None
    by (simp add: first_index_def takeWhile_append)
next
  case (Some p)
  then have "p \<in> set ps \<and> p_id p = pid" by (rule find_Some_ex)
  then have "(c, p) \<in> set (map (Pair c) ps)"
    and "\<not> (case (c, p) of (c, p) \<Rightarrow> p_id p \<noteq> pid)" by auto
  then have "takeWhile (\<lambda>(c, p). p_id p \<noteq> pid) (map (Pair c) ps @ located rest) =
      takeWhile (\<lambda>(c, p). p_id p \<noteq> pid) (map (Pair c) ps)"
    by (rule takeWhile_append1)
  then show ?thesis using Some
    by (simp add: first_index_def takeWhile_map_Pair)
qed

lemma consume_scan_Continue:
  "first_match pid cat = None \<Longrightarrow> consume_scan pid cat = Continue"
proof (induction cat)
  case Nil
  show ?case by simp
next
  case (Cons a cat)
  obtain c ps where a: "a = (c, ps)" by (cases a)
  from Cons show ?case
    by (simp add: a first_match_Cons consume_in_char split: option.splits)
qed

lemma consume_scan_Raise:
  "first_match pid cat = Some (c, p) \<Longrightarrow> p_stock p = [] \<Longrightarrow>
   consume_scan pid cat = Raise (out_of_stock p)"
proof (induction cat)
  case Nil
  then show ?case by (simp add: first_match_def)
next
  case (Cons a cat)
  obtain c0 ps where a: "a = (c0, ps)" by (cases a)
  from Cons show ?case
    by (auto simp add: a first_match_Cons consume_in_char split: option.splits)
qed

lemma consume_scan_Return:
  "first_match pid cat = Some (c, p) \<Longrightarrow> p_stock p = l # r \<Longrightarrow>
   \<exists>cat'. consume_scan pid cat = Return (cat', c, p\<lparr>p_stock := r\<rparr>, l) \<and>
          shape cat' = shape cat \<and>
          located cat' = (located cat)[first_index pid cat := (c, p\<lparr>p_stock := r\<rparr>)]"
proof (induction cat)
  case Nil
  then show ?case by (simp add: first_match_def)
next
  case (Cons a cat)
  obtain c0 ps where a: "a = (c0, ps)" by (cases a)
  show ?case
  proof (cases "List.find (\<lambda>p. p_id p = pid) ps")
    case None
    with Cons.prems have "first_match pid cat = Some (c, p)"
      by (simp add: a first_match_Cons)
    from Cons.IH [OF this Cons.prems(2)] obtain cat' where
      c: "consume_scan pid cat = Return (cat', c, p\<lparr>p_stock := r\<rparr>, l)"
      and f: "shape cat' = shape cat"
      and u: "located cat' = (located cat)[first_index pid cat := (c, p\<lparr>p_stock := r\<rparr>)]"
      by blast
    show ?thesis
      using None c f u
      by (simp add: a first_index_Cons consume_in_char list_update_append shape_def)
  next
    case (Some p0)
    with Cons.prems have eq: "c0 = c" "p0 = p"
      by (simp_all add: a first_match_Cons)
    have lt: "length (takeWhile (\<lambda>p. p_id p \<noteq> pid) ps) < length ps"
      using find_Some_takeWhile [OF Some] by simp
    show ?thesis
      using Some eq lt Cons.prems(2)
      by (simp add: a first_index_Cons consume_in_char list_update_append map_update shape_def)
  qed
qed

lemma snd_located [simp]: "map snd (located cat) = all_products cat"
  by (induction cat) (auto simp: all_products_def located_def comp_def)

lemma first_match_None_iff:
  "first_match pid cat = None \<longleftrightarrow> pid \<notin> p_id ` set (all_products cat)"
proof -
  have "set (all_products cat) = snd ` set (located cat)"
    by (simp add: snd_located [symmetric] del: snd_located)
  then show ?thesis
    by (force simp: first_match_def find_None_iff)
qed

lemma first_match_nonempty:
  assumes "first_match pid cat = Some (c, p)" and "p_stock p \<noteq> []"
  shows "\<exists>cat'. consume_scan pid cat =
            Return (cat', c, p\<lparr>p_stock := tl (p_stock p)\<rparr>, hd (p_stock p)) \<and>
          shape cat' = shape cat \<and>
          located cat' =
            (located cat)[first_index pid cat := (c, p\<lparr>p_stock := tl (p_stock p)\<rparr>)]"
proof -
  from assms(2) obtain l r where lr: "p_stock p = l # r" by (cases "p_stock p") auto
  from consume_scan_Return [OF assms(1) lr] show ?thesis by (simp add: lr)
qed

lemma find_update_first:
  "List.find P xs = Some x \<Longrightarrow> P y \<Longrightarrow>
   List.find P (xs[length (takeWhile (\<lambda>x. \<not> P x) xs) := y]) = Some y"
  by (induction xs) (auto split: if_splits)

lemma first_index_alt:
  "first_index pid cat =
     length (takeWhile (\<lambda>x. \<not> (case x of (c, p) \<Rightarrow> p_id p = pid)) (located cat))"
  by (simp add: first_index_def case_prod_unfold)

lemma first_match_after:
  assumes "first_match pid cat = Some (c, p)"
    and "located cat' = (located cat)[first_index pid cat := (c, p')]"
    and "p_id p' = pid"
  shows "first_match pid cat' = Some (c, p')"
  using find_update_first [of "\<lambda>(c, p). p_id p = pid" "located cat" "(c, p)" "(c, p')"] assms
  by (simp add: first_match_def first_index_alt)

lemma consumed_name: "p_name p' = p_name p \<Longrightarrow> consumed pid c p' = consumed pid c p"
  by (simp add: consumed_def fun_eq_iff)

lemma find_distinct:
  "distinct (map f xs) \<Longrightarrow> x \<in> set xs \<Longrightarrow> List.find (\<lambda>y. f y = f x) xs = Some x"
  by (induction xs) (auto simp: rev_image_eqI)

lemma first_match_unique:
  assumes "distinct (map p_id (all_products cat))" and "(c, p) \<in> set (located cat)"
  shows "first_match (p_id p) cat = Some (c, p)"
proof -
  have "distinct (map (p_id \<circ> snd) (located cat))"
    using assms(1) by (simp add: snd_located [symmetric] del: snd_located)
  from find_distinct [OF this assms(2)] show ?thesis
    by (simp add: first_match_def case_prod_unfold)
qed

lemma find_nth_takeWhile:
  "List.find P xs = Some x \<Longrightarrow> xs ! length (takeWhile (\<lambda>x. \<not> P x) xs) = x"
  by (induction xs) (auto split: if_splits)

lemma first_match_position:
  assumes "first_match pid cat = Some (c, p)"
  shows "first_index pid cat < length (located cat) \<and>
         located cat ! first_index pid cat = (c, p) \<and> p_id p = pid"
proof -
  let ?P = "\<lambda>(c, p). p_id p = pid"
  have f: "List.find ?P (located cat) = Some (c, p)"
    using assms by (simp add: first_match_def)
  from find_Some_takeWhile [OF f] find_nth_takeWhile [OF f] find_Some_ex [OF f]
  show ?thesis by (simp add: first_index_alt)
qed

lemma position_first_match:
  assumes "k < length (located cat)" and "located cat ! k = (c, p)" and "p_id p = pid"
    and "\<forall>j<k. p_id (snd (located cat ! j)) \<noteq> pid"
  shows "first_match pid cat = Some (c, p) \<and> first_index pid cat = k"
proof -
  have "List.find (\<lambda>(c, p). p_id p = pid) (located cat) = Some (c, p)"
    unfolding find_Some_iff using assms by (intro exI [of _ k]) (auto simp: case_prod_unfold)
  moreover have "takeWhile (\<lambda>(c, p). p_id p \<noteq> pid) (located cat) = take k (located cat)"
    using assms by (intro takeWhile_eq_take_P_nth) (auto simp: case_prod_unfold)
  ultimately show ?thesis
    using assms(1) by (simp add: first_match_def first_index_def)
qed

lemma shape_located_eq:
  "shape a = shape b \<Longrightarrow> located a = located b \<Longrightarrow> a = b"
proof (induction a arbitrary: b)
  case Nil
  then show ?case by (simp add: shape_def)
next
  case (Cons x a)
  obtain c ps where x: "x = (c, ps)" by (cases x)
  from Cons.prems(1) obtain y b' where b: "b = y # b'"
    by (cases b) (auto simp: shape_def)
  obtain c' ps' where y: "y = (c', ps')" by (cases y)
  from Cons.prems(1) have c: "c' = c" and len: "length ps = length ps'"
    and sh: "shape a = shape b'"
    by (simp_all add: shape_def x b y)
  from Cons.prems(2) have "map (Pair c) ps @ located a = map (Pair c) ps' @ located b'"
    by (simp add: x b y c)
  with len have "map (Pair c) ps = map (Pair c) ps'" and lo: "located a = located b'"
    by simp_all
  then have "ps = ps'" by (simp add: inj_map_eq_map inj_on_def)
  with Cons.IH [OF sh lo] show ?case by (simp add: x b y c)
qed

subsection \<open>Changing one product\<close>

lemma shape_update_at [simp]: "shape (update_at k f cat) = shape cat"
  by (induction k f cat rule: update_at.induct) (simp_all add: shape_def)

lemma located_update_at:
  "k < length (located cat) \<Longrightarrow>
   located (update_at k f cat) =
     (located cat)[k := (fst (located cat ! k), f (snd (located cat ! k)))]"
proof (induction k f cat rule: update_at.induct)
  case (1 k f)
  then show ?case by simp
next
  case (2 k f category products rest)
  show ?case
  proof (cases "k < length products")
    case True
    then show ?thesis
      by (simp add: list_update_append nth_append map_update)
  next
    case False
    with "2.prems" have "k - length products < length (located rest)" by simp
    with False "2.IH" show ?thesis
      by (simp add: list_update_append nth_append)
  qed
qed

lemma drop_stock_1: "drop_stock (Suc 0) p = p\<lparr>p_stock := tl (p_stock p)\<rparr>"
  by (simp add: drop_stock_def drop_Suc)

lemma shape_popped [simp]: "shape (popped pid cat) = shape cat"
  by (simp add: popped_def)

lemma drop_stock_drop_stock: "drop_stock i (drop_stock j p) = drop_stock (j + i) p"
  by (simp add: drop_stock_def add.commute)

lemma update_at_update_at:
  "update_at k f (update_at k g cat) = update_at k (\<lambda>p. f (g p)) cat"
  by (induction k g cat rule: update_at.induct) simp_all

lemma located_popped:
  assumes "first_match pid cat = Some (c, p)"
  shows "located (popped pid cat) =
           (located cat)[first_index pid cat := (c, p\<lparr>p_stock := tl (p_stock p)\<rparr>)]"
  using first_match_position [OF assms]
  by (simp add: popped_def located_update_at drop_stock_1)

lemma consume_scan_popped:
  assumes "first_match pid cat = Some (c, p)" and "p_stock p \<noteq> []"
  shows "consume_scan pid cat =
           Return (popped pid cat, c, p\<lparr>p_stock := tl (p_stock p)\<rparr>, hd (p_stock p))"
proof -
  from first_match_nonempty [OF assms] obtain cat' where
    r: "consume_scan pid cat = Return (cat', c, p\<lparr>p_stock := tl (p_stock p)\<rparr>, hd (p_stock p))"
    and sh: "shape cat' = shape cat"
    and lo: "located cat' =
            (located cat)[first_index pid cat := (c, p\<lparr>p_stock := tl (p_stock p)\<rparr>)]"
    by blast
  have "cat' = popped pid cat"
    by (rule shape_located_eq) (simp_all add: sh lo located_popped [OF assms(1)])
  with r show ?thesis by simp
qed

lemma first_index_after:
  assumes "first_match pid cat = Some (c, p)"
    and "located cat' = (located cat)[first_index pid cat := (c, p')]"
    and "p_id p' = pid"
  shows "first_index pid cat' = first_index pid cat"
proof -
  have "\<And>P xs y. \<not> P y \<Longrightarrow>
      takeWhile P (xs[length (takeWhile P xs) := y]) = takeWhile P xs"
  proof -
    fix P :: "'a \<Rightarrow> bool" and xs y
    assume "\<not> P y"
    then show "takeWhile P (xs[length (takeWhile P xs) := y]) = takeWhile P xs"
      by (induction xs) auto
  qed
  from this [of "\<lambda>(c, p). p_id p \<noteq> pid" "(c, p')" "located cat"] assms(2,3)
  show ?thesis by (simp add: first_index_def)
qed

lemma first_match_update_at:
  assumes "first_match pid cat = Some (c, p)" and "p_id (f p) = pid"
  shows "first_match pid (update_at (first_index pid cat) f cat) = Some (c, f p)"
    and "first_index pid (update_at (first_index pid cat) f cat) = first_index pid cat"
proof -
  have lo: "located (update_at (first_index pid cat) f cat) =
      (located cat)[first_index pid cat := (c, f p)]"
    using first_match_position [OF assms(1)] by (simp add: located_update_at)
  show "first_match pid (update_at (first_index pid cat) f cat) = Some (c, f p)"
    using assms(1) lo assms(2) by (rule first_match_after)
  show "first_index pid (update_at (first_index pid cat) f cat) = first_index pid cat"
    using assms(1) lo assms(2) by (rule first_index_after)
qed

subsection \<open>Saving and loading\<close>

lemma create_backup_absent: "stock_file s = None \<Longrightarrow> create_backup lib now s = (None, s)"
  by (simp add: create_backup_def)

lemma create_backup_present:
  "stock_file s = Some b \<Longrightarrow> decode_error lib b = None \<Longrightarrow>
   create_backup lib now s = (None, write_backup (backup_file now) (universal_newlines b) s)"
  by (simp add: create_backup_def)

lemma create_backup_raises:
  "stock_file s = Some b \<Longrightarrow> decode_error lib b = Some e \<Longrightarrow>
   create_backup lib now s = (Some e, write_backup (backup_file now) [] s)"
  by (simp add: create_backup_def)

lemma stock_file_write_backup [simp]: "stock_file (write_backup f b s) = stock_file s"
  by (simp add: write_backup_def)

lemma stock_file_write_primary [simp]: "stock_file (write_primary b s) = Some b"
  by (simp add: write_primary_def)

lemma save_returns_True: "save_stock_data lib now data s = (Inr v, s') \<Longrightarrow> v = True"
  by (auto simp: save_stock_data_def split: prod.splits option.splits dumped.splits)

lemma save_status: "save_stock_data lib now data s = (Inl e, s') \<Longrightarrow> status_code e = 500"
  by (auto simp: save_stock_data_def save_failed_def split: prod.splits option.splits dumped.splits)

lemma save_success_file:
  "save_stock_data lib now data s = (Inr v, s') \<Longrightarrow>
   \<exists>b. dump lib data = Dumped b \<and> stock_file s' = Some b"
  by (auto simp: save_stock_data_def split: prod.splits option.splits dumped.splits)

lemma save_present_ok:
  assumes "stock_file s = Some b0" and "decode_error lib b0 = None" and "dump lib data = Dumped b"
  shows "save_stock_data lib now data s =
           (Inr True, write_primary b (write_backup (backup_file now) (universal_newlines b0) s))"
  using assms by (simp add: save_stock_data_def create_backup_present)

lemma save_absent:
  "stock_file s = None \<Longrightarrow>
   save_stock_data lib now data s =
     (case dump lib data of
        Dumped b \<Rightarrow> (Inr True, write_primary b s)
      | Dump_Raises partial e \<Rightarrow> (Inl (save_failed e), write_primary partial s))"
  by (simp add: save_stock_data_def create_backup_absent)

lemma load_present:
  "stock_file s = Some b \<Longrightarrow> load lib b = Inr cat \<Longrightarrow> load_stock_data lib now s = (Inr cat, s)"
  by (simp add: load_stock_data_def)

lemma load_absent:
  "stock_file s = None \<Longrightarrow> dump lib default_data = Dumped b \<Longrightarrow>
   load_stock_data lib now s = (Inr default_data, write_primary b s)"
  by (simp add: load_stock_data_def save_absent)

lemma snd_load: "snd (load_stock_data lib now s) = after_load lib s"
  by (simp add: load_stock_data_def after_load_def save_absent
      split: option.splits sum.splits dumped.splits)

lemma load_cases:
  obtains e where "load_stock_data lib now s = (Inl e, after_load lib s)"
  | data where "load_stock_data lib now s = (Inr data, after_load lib s)"
  using snd_load [of lib now s]
  by (cases "load_stock_data lib now s"; cases "fst (load_stock_data lib now s)") auto

lemma stock_file_after_load: "\<exists>b. stock_file (after_load lib s) = Some b"
  by (simp add: after_load_def split: option.splits)

subsection \<open>The consume handler by cases\<close>

lemma consume_nonempty:
  assumes "load_stock_data lib now s = (Inr cat, s1)"
    and "first_match pid cat = Some (c, p)" and "p_stock p \<noteq> []"
  shows "consume_stock_item lib now pid s =
     (case save_stock_data lib now (popped pid cat) s1 of
        (Inl e, s2) \<Rightarrow> (Inl e, s2)
      | (Inr saved, s2) \<Rightarrow>
          (Inr (consumed pid c p (hd (p_stock p)) (length (tl (p_stock p)))), s2))"
  using assms(1) consume_scan_popped [OF assms(2,3)]
  by (simp add: consume_stock_item_def consumed_def split: prod.splits sum.splits)

lemma consume_empty:
  assumes "load_stock_data lib now s = (Inr cat, s1)"
    and "first_match pid cat = Some (c, p)" and "p_stock p = []"
  shows "consume_stock_item lib now pid s = (Inl (out_of_stock p), s1)"
  using assms by (simp add: consume_stock_item_def consume_scan_Raise)

lemma consume_unknown:
  assumes "load_stock_data lib now s = (Inr cat, s1)" and "first_match pid cat = None"
  shows "consume_stock_item lib now pid s = (Inl (not_found pid), s1)"
  using assms by (simp add: consume_stock_item_def consume_scan_Continue)

subsection \<open>The table of documents\<close>

lemma p_id_key [simp]: "p_id (key i n ls) = i"
  by (simp add: key_def)

lemma p_stock_key [simp]: "p_stock (key i n ls) = map (\<lambda>l. \<lparr> license = l \<rparr>) ls"
  by (simp add: key_def)

lemma drop_stock_key [simp]: "drop_stock i (key j n ls) = key j n (drop i ls)"
  by (simp add: drop_stock_def key_def drop_map)

lemma load_table:
  "load table ''{}'' = Inr []"
  "load table (''{'' @ [CR, LF] @ ''}'') = Inr []"
  "load table ''seed'' = Inr default_data"
  "load table ''seed-1'' = Inr seed_1"
  "load table ''seed-2'' = Inr seed_2"
  "load table ''twins'' = Inr twins"
  "load table ''twins-1'' = Inr twins_1"
  "load table ''twins-2'' = Inr twins_2"
  "load table ''tainted'' = Inr tainted"
  "load table ''tainted twins'' = Inr tainted_twins"
  "load table ''{'' = Inl ''Expecting value''"
  by (simp_all add: table_def known_def CR_def LF_def)

lemma decode_table:
  "decode_error table ''{}'' = None"
  "decode_error table (''{'' @ [CR, LF] @ ''}'') = None"
  "decode_error table ''seed'' = None"
  "decode_error table ''seed-1'' = None"
  "decode_error table ''seed-2'' = None"
  "decode_error table ''twins'' = None"
  "decode_error table ''twins-1'' = None"
  "decode_error table ''twins-2'' = None"
  "decode_error table ''tainted'' = None"
  "decode_error table ''tainted twins'' = None"
  "decode_error table [CHR 0xFF] = Some ''invalid start byte''"
  by (simp_all add: table_def CR_def LF_def)

lemma located_twins:
  "located twins =
     [(''A'', key 3 ''x'' []), (''A'', key 7 ''first'' [''k1'', ''k2'']),
      (''B'', key 7 ''second'' [''k3''])]"
  by (simp add: twins_def)

lemma all_products_twins:
  "all_products twins = [key 3 ''x'' [], key 7 ''first'' [''k1'', ''k2''], key 7 ''second'' [''k3'']]"
  by (simp add: all_products_def twins_def)

lemma first_match_twins:
  "first_match 7 twins = Some (''A'', key 7 ''first'' [''k1'', ''k2''])"
  "first_match 3 twins = Some (''A'', key 3 ''x'' [])"
  "first_index 7 twins = 1"
  by (simp_all add: first_match_def first_index_def located_twins)

lemma twins_updates:
  "update_at (first_index 7 twins) (drop_stock i) twins =
     [(''A'', [key 3 ''x'' [], key 7 ''first'' (drop i [''k1'', ''k2''])]),
      (''B'', [key 7 ''second'' [''k3'']])]"
  by (simp add: first_match_twins) (simp add: twins_def)

lemma popped_twins: "popped 7 twins = twins_1"
  by (simp add: popped_def twins_updates twins_1_def)

lemma universal_newlines_no_CR: "CR \<notin> set b \<Longrightarrow> universal_newlines b = b"
  by (induction b rule: universal_newlines.induct) (auto simp: universal_newlines.simps)

lemma universal_newlines_plain [simp]:
  "universal_newlines ''twins'' = ''twins''" "universal_newlines ''seed'' = ''seed''"
  "universal_newlines ''tainted'' = ''tainted''"
  "universal_newlines ''tainted twins'' = ''tainted twins''"
  "universal_newlines ''twins-1'' = ''twins-1''" "universal_newlines ''seed-1'' = ''seed-1''"
  by (simp_all add: universal_newlines_no_CR CR_def)

lemma key_eq [simp]: "key i n ls = key j m ks \<longleftrightarrow> i = j \<and> n = m \<and> ls = ks"
  by (auto simp: key_def inj_map_eq_map inj_on_def)

lemma has_surrogate_key_strings:
  "\<not> has_surrogate ''a.png''" "\<not> has_surrogate ''d''" "\<not> has_surrogate ''instant''"
  "\<not> has_surrogate ''A''" "\<not> has_surrogate ''B''" "\<not> has_surrogate ''x''"
  "\<not> has_surrogate ''first''" "\<not> has_surrogate ''second''"
  "\<not> has_surrogate ''k1''" "\<not> has_surrogate ''k2''" "\<not> has_surrogate ''k3''"
  "has_surrogate surrogate"
  by (simp_all add: surrogate_def)

lemma dump_twins:
  "dump table twins = Dumped ''twins''"
  "dump table twins_1 = Dumped ''twins-1''"
  "dump table twins_2 = Dumped ''twins-2''"
  by (simp_all add: table_def strings_of_def known_def twins_def twins_1_def twins_2_def key_def
      default_data_def seed_1_def seed_2_def)


lemma located_default:
  "located default_data =
     [(''BloodStrike'', blood_strike), (''Window Protection 11'', window_protection)]"
  by (simp add: default_data_def)

lemma all_products_default: "all_products default_data = [blood_strike, window_protection]"
  by (simp add: default_data_def all_products_def)

lemma seed_ids [simp]: "p_id blood_strike = 1" "p_id window_protection = 2"
  by (simp_all add: blood_strike_def window_protection_def)

lemma seed_stock:
  "p_stock blood_strike =
     [\<lparr> license = ''email@example.com:password123'' \<rparr>,
      \<lparr> license = ''email2@example.com:password456'' \<rparr>]"
  "p_stock window_protection =
     [\<lparr> license = ''email@example.com:password123'' \<rparr>,
      \<lparr> license = ''email2@example.com:password456'' \<rparr>,
      \<lparr> license = ''email2@example.com:password456'' \<rparr>,
      \<lparr> license = ''email2@example.com:password456'' \<rparr>]"
  by (simp_all add: blood_strike_def window_protection_def)

lemma first_match_default:
  "first_match 1 default_data = Some (''BloodStrike'', blood_strike)"
  "first_match 2 default_data = Some (''Window Protection 11'', window_protection)"
  "first_index 1 default_data = 0"
  by (simp_all add: first_match_def first_index_def located_default)

lemma seed_updates:
  "update_at (first_index 1 default_data) (drop_stock i) default_data =
     [(''BloodStrike'', [drop_stock i blood_strike]),
      (''Window Protection 11'', [window_protection])]"
  by (simp add: first_match_default) (simp add: default_data_def)

lemma dump_seed:
  "dump table default_data = Dumped ''seed''"
  "dump table seed_1 = Dumped ''seed-1''"
  "dump table seed_2 = Dumped ''seed-2''"
  by (simp_all add: table_def strings_of_def known_def default_data_def seed_1_def seed_2_def
      blood_strike_def window_protection_def drop_stock_def)

lemma reads_back_seed:
  "reads_back table default_data" "reads_back table seed_1" "reads_back table seed_2"
  by (simp_all add: reads_back_def dump_seed load_table decode_table)

lemma reads_back_twins:
  "reads_back table twins" "reads_back table twins_1" "reads_back table twins_2"
  by (simp_all add: reads_back_def dump_twins load_table decode_table)

lemma load_file_of:
  "load_stock_data table now (file_of ''twins'') = (Inr twins, file_of ''twins'')"
  "load_stock_data table now (file_of ''seed'') = (Inr default_data, file_of ''seed'')"
  "load_stock_data table now (file_of ''tainted'') = (Inr tainted, file_of ''tainted'')"
  "load_stock_data table now (file_of ''tainted twins'') =
     (Inr tainted_twins, file_of ''tainted twins'')"
  by (simp_all add: load_stock_data_def file_of_def load_table)

lemma file_of_simps [simp]:
  "stock_file (file_of b) = Some b" "written (file_of b) = []" "backup_dir (file_of b) f = None"
  by (simp_all add: file_of_def)

lemma no_file_simps [simp]:
  "stock_file no_file = None" "written no_file = []" "backup_dir no_file f = None"
  by (simp_all add: no_file_def)

lemma save_twins_1:
  "save_stock_data table now twins_1 (file_of ''twins'') =
     (Inr True, write_primary ''twins-1'' (write_backup (backup_file now) ''twins'' (file_of ''twins'')))"
  using save_present_ok [of "file_of ''twins''" "''twins''" table twins_1 "''twins-1''" now]
  by (simp add: decode_table dump_twins)

lemma tainted_facts:
  "first_match 7 tainted = Some (''A'', key 7 ''first'' [''k1'', surrogate])"
  "popped 7 tainted = [(''A'', [key 7 ''first'' [surrogate]])]"
  "dump table [(''A'', [key 7 ''first'' [surrogate]])] =
     Dump_Raises ''{'' ''surrogates not allowed''"
  by (simp_all add: first_match_def first_index_def popped_def tainted_def table_def
      strings_of_def surrogate_def)

lemma tainted_twins_facts:
  "located tainted_twins =
     [(''A'', key 7 ''first'' [''k1'']), (''B'', key 7 ''second'' [surrogate])]"
  "first_match 7 tainted_twins = Some (''A'', key 7 ''first'' [''k1''])"
  "popped 7 tainted_twins =
     [(''A'', [key 7 ''first'' []]), (''B'', [key 7 ''second'' [surrogate]])]"
  "dump table [(''A'', [key 7 ''first'' []]), (''B'', [key 7 ''second'' [surrogate]])] =
     Dump_Raises ''{'' ''surrogates not allowed''"
  by (simp_all add: first_match_def first_index_def popped_def tainted_twins_def table_def
      strings_of_def surrogate_def)

lemma save_raises:
  assumes "stock_file s = Some b0" and "decode_error lib b0 = None"
    and "dump lib data = Dump_Raises partial e"
  shows "save_stock_data lib now data s =
           (Inl (save_failed e),
            write_primary partial (write_backup (backup_file now) (universal_newlines b0) s))"
  using assms by (simp add: save_stock_data_def create_backup_present)


section \<open>The outcomes of a consume request\<close>

text \<open>
  Claim C1, as stated, fails when the save fails: the file \<open>tainted\<close> loads as a catalog
  whose product 7 has two stock items, the second with a lone surrogate; the consume
  request removes the first item, the dump of the changed catalog raises, and the request
  fails with status 500, the primary file holding what the dump had written.
\<close>

theorem consume_with_failing_save_counterexample:
  "load_stock_data table clock0 (file_of ''tainted'') = (Inr tainted, file_of ''tainted'') \<and>
   first_match 7 tainted = Some (''A'', key 7 ''first'' [''k1'', surrogate]) \<and>
   p_stock (key 7 ''first'' [''k1'', surrogate]) \<noteq> [] \<and>
   fst (consume_stock_item table clock0 7 (file_of ''tainted'')) =
     Inl (HTTPException 500 ''Error saving stock data: surrogates not allowed'') \<and>
   stock_file (snd (consume_stock_item table clock0 7 (file_of ''tainted''))) = Some ''{'' \<and>
   load table ''{'' = Inl ''Expecting value''"
proof -
  have s: "save_stock_data table clock0 (popped 7 tainted) (file_of ''tainted'') =
      (Inl (save_failed ''surrogates not allowed''),
       write_primary ''{'' (write_backup (backup_file clock0) (universal_newlines ''tainted'')
         (file_of ''tainted'')))"
    by (rule save_raises) (simp_all add: decode_table tainted_facts)
  have ne: "p_stock (key 7 ''first'' [''k1'', surrogate]) \<noteq> []" by simp
  have "consume_stock_item table clock0 7 (file_of ''tainted'') =
      (Inl (save_failed ''surrogates not allowed''),
       write_primary ''{'' (write_backup (backup_file clock0) (universal_newlines ''tainted'')
         (file_of ''tainted'')))"
    using consume_nonempty [OF load_file_of(3) tainted_facts(1) ne] s by simp
  then show ?thesis
    using ne by (simp add: load_file_of tainted_facts load_table save_failed_def)
qed

text \<open>
  Claim C1, amended. Whatever catalog the load gives and whatever the product id: when
  the first product with the id has a stock that is not empty, the request changes the
  catalog by removing the first item (index 0) of that product's stock and saves it; when
  the save returns, the request succeeds with that item, the number of items left, the
  owning category and the product's name, and the primary file holds the dump of the
  changed catalog; when the save fails, the request fails with the save's error, status
  500. When the stock of that product is empty the request fails with status 400, and
  when no product has the id it fails with status 404; in both cases nothing is saved.
\<close>

theorem consume_stock_item_outcomes:
  assumes "load_stock_data lib now s = (Inr cat, s1)"
  shows
    "(\<forall>c p. first_match pid cat = Some (c, p) \<and> p_stock p \<noteq> [] \<longrightarrow>
        shape (popped pid cat) = shape cat \<and>
        located (popped pid cat) =
          (located cat)[first_index pid cat := (c, p\<lparr>p_stock := drop 1 (p_stock p)\<rparr>)] \<and>
        (\<forall>s2. save_stock_data lib now (popped pid cat) s1 = (Inr True, s2) \<longrightarrow>
           consume_stock_item lib now pid s =
             (Inr (consumed pid c p (p_stock p ! 0) (length (p_stock p) - 1)), s2) \<and>
           (\<exists>b. dump lib (popped pid cat) = Dumped b \<and> stock_file s2 = Some b)) \<and>
        (\<forall>e s2. save_stock_data lib now (popped pid cat) s1 = (Inl e, s2) \<longrightarrow>
           consume_stock_item lib now pid s = (Inl e, s2) \<and> status_code e = 500)) \<and>
     (\<forall>c p. first_match pid cat = Some (c, p) \<and> p_stock p = [] \<longrightarrow>
        consume_stock_item lib now pid s = (Inl (out_of_stock p), s1) \<and>
        status_code (out_of_stock p) = 400) \<and>
     (pid \<notin> p_id ` set (all_products cat) \<longrightarrow>
        consume_stock_item lib now pid s = (Inl (not_found pid), s1) \<and>
        status_code (not_found pid) = 404)"
proof (intro conjI allI impI)
  fix c p
  assume a: "first_match pid cat = Some (c, p) \<and> p_stock p \<noteq> []"
  then have fm: "first_match pid cat = Some (c, p)" and ne: "p_stock p \<noteq> []" by simp_all
  show "shape (popped pid cat) = shape cat" by simp
  show "located (popped pid cat) =
          (located cat)[first_index pid cat := (c, p\<lparr>p_stock := drop 1 (p_stock p)\<rparr>)]"
    using located_popped [OF fm] by (simp add: drop_Suc)
  have hd0: "hd (p_stock p) = p_stock p ! 0" using ne by (simp add: hd_conv_nth)
  note co = consume_nonempty [OF assms fm ne, unfolded hd0]
  {
    fix s2
    assume sv: "save_stock_data lib now (popped pid cat) s1 = (Inr True, s2)"
    show "consume_stock_item lib now pid s =
             (Inr (consumed pid c p (p_stock p ! 0) (length (p_stock p) - 1)), s2)"
      using co sv by simp
    show "\<exists>b. dump lib (popped pid cat) = Dumped b \<and> stock_file s2 = Some b"
      using sv by (rule save_success_file)
  }
  {
    fix e s2
    assume sv: "save_stock_data lib now (popped pid cat) s1 = (Inl e, s2)"
    show "consume_stock_item lib now pid s = (Inl e, s2)"
      using co sv by simp
    show "status_code e = 500" using sv by (rule save_status)
  }
next
  fix c p
  assume a: "first_match pid cat = Some (c, p) \<and> p_stock p = []"
  then show "consume_stock_item lib now pid s = (Inl (out_of_stock p), s1)"
    using assms by (simp add: consume_empty)
  show "status_code (out_of_stock p) = 400" by (simp add: out_of_stock_def)
next
  assume "pid \<notin> p_id ` set (all_products cat)"
  then have "first_match pid cat = None" by (simp add: first_match_None_iff)
  with assms show "consume_stock_item lib now pid s = (Inl (not_found pid), s1)"
    by (rule consume_unknown)
  show "status_code (not_found pid) = 404" by (simp add: not_found_def)
qed

theorem consume_stock_item_outcomes_witness:
  "load_stock_data table clock0 (file_of ''twins'') = (Inr twins, file_of ''twins'') \<and>
   first_match 7 twins = Some (''A'', key 7 ''first'' [''k1'', ''k2'']) \<and>
   p_stock (key 7 ''first'' [''k1'', ''k2'']) \<noteq> [] \<and>
   save_stock_data table clock0 (popped 7 twins) (file_of ''twins'') =
     (Inr True,
      write_primary ''twins-1'' (write_backup (backup_file clock0) ''twins'' (file_of ''twins''))) \<and>
   consume_stock_item table clock0 7 (file_of ''twins'') =
     (Inr (consumed 7 ''A'' (key 7 ''first'' [''k1'', ''k2'']) \<lparr> license = ''k1'' \<rparr> 1),
      write_primary ''twins-1'' (write_backup (backup_file clock0) ''twins'' (file_of ''twins''))) \<and>
   load_stock_data table clock0 (file_of ''tainted'') = (Inr tainted, file_of ''tainted'') \<and>
   first_match 7 tainted = Some (''A'', key 7 ''first'' [''k1'', surrogate]) \<and>
   fst (save_stock_data table clock0 (popped 7 tainted) (file_of ''tainted'')) =
     Inl (save_failed ''surrogates not allowed'') \<and>
   fst (consume_stock_item table clock0 7 (file_of ''tainted'')) =
     Inl (save_failed ''surrogates not allowed'') \<and>
   first_match 3 twins = Some (''A'', key 3 ''x'' []) \<and>
   consume_stock_item table clock0 3 (file_of ''twins'') =
     (Inl (out_of_stock (key 3 ''x'' [])), file_of ''twins'') \<and>
   99 \<notin> p_id ` set (all_products twins) \<and>
   consume_stock_item table clock0 99 (file_of ''twins'') = (Inl (not_found 99), file_of ''twins'')"
proof -
  have h: "load_stock_data table clock0 (file_of ''twins'') = (Inr twins, file_of ''twins'')"
    by (rule load_file_of)
  have ht: "load_stock_data table clock0 (file_of ''tainted'') = (Inr tainted, file_of ''tainted'')"
    by (rule load_file_of)
  have n: "99 \<notin> p_id ` set (all_products twins)"
    by (simp add: all_products_twins)
  have ne: "p_stock (key 7 ''first'' [''k1'', ''k2'']) \<noteq> []" by simp
  have net: "p_stock (key 7 ''first'' [''k1'', surrogate]) \<noteq> []" by simp
  have sv: "save_stock_data table clock0 (popped 7 twins) (file_of ''twins'') =
     (Inr True,
      write_primary ''twins-1'' (write_backup (backup_file clock0) ''twins'' (file_of ''twins'')))"
    by (simp add: popped_twins save_twins_1)
  have svt: "save_stock_data table clock0 (popped 7 tainted) (file_of ''tainted'') =
      (Inl (save_failed ''surrogates not allowed''),
       write_primary ''{'' (write_backup (backup_file clock0) (universal_newlines ''tainted'')
         (file_of ''tainted'')))"
    by (rule save_raises) (simp_all add: decode_table tainted_facts)
  note t7 = consume_stock_item_outcomes [OF h, of 7]
  note tt = consume_stock_item_outcomes [OF ht, of 7]
  note t3 = consume_stock_item_outcomes [OF h, of 3]
  note t99 = consume_stock_item_outcomes [OF h, of 99]
  have a: "consume_stock_item table clock0 7 (file_of ''twins'') =
     (Inr (consumed 7 ''A'' (key 7 ''first'' [''k1'', ''k2'']) \<lparr> license = ''k1'' \<rparr> 1),
      write_primary ''twins-1'' (write_backup (backup_file clock0) ''twins'' (file_of ''twins'')))"
    using t7 first_match_twins(1) ne sv by auto
  have b: "fst (consume_stock_item table clock0 7 (file_of ''tainted'')) =
     Inl (save_failed ''surrogates not allowed'')"
    using tt tainted_facts(1) net svt by auto
  have c: "consume_stock_item table clock0 3 (file_of ''twins'') =
     (Inl (out_of_stock (key 3 ''x'' [])), file_of ''twins'')"
    using t3 first_match_twins(2) by auto
  have d: "consume_stock_item table clock0 99 (file_of ''twins'') =
     (Inl (not_found 99), file_of ''twins'')"
    using t99 n by blast
  show ?thesis
    using h ht first_match_twins(1,2) tainted_facts(1) ne n sv svt a b c d by simp
qed

section \<open>Successive consume requests\<close>

lemma update_at_same: "(\<And>p. f p = p) \<Longrightarrow> update_at k f cat = cat"
  by (induction k f cat rule: update_at.induct) simp_all

lemma drop_stock_0 [simp]: "drop_stock 0 p = p"
  by (simp add: drop_stock_def)

lemma holds_load:
  assumes "holds lib s cat"
  shows "\<exists>s1 b. load_stock_data lib now s = (Inr cat, s1) \<and> stock_file s1 = Some b \<and>
           load lib b = Inr cat \<and> decode_error lib b = None"
proof (cases "stock_file s")
  case None
  with assms have d: "cat = default_data" and rb: "reads_back lib default_data"
    by (simp_all add: holds_def)
  from rb obtain b where b: "dump lib default_data = Dumped b"
    and l: "load lib b = Inr default_data" and e: "decode_error lib b = None"
    by (auto simp: reads_back_def split: dumped.splits)
  from load_absent [OF None b] l e d show ?thesis by auto
next
  case (Some b)
  with assms have "load lib b = Inr cat" and "decode_error lib b = None"
    by (simp_all add: holds_def)
  with Some load_present [OF Some this(1)] show ?thesis by auto
qed

lemma holds_out_of_stock:
  assumes "holds lib s cat" and "first_match pid cat = Some (c, p)" and "p_stock p = []"
  shows "\<exists>s1. consume_stock_item lib now pid s = (Inl (out_of_stock p), s1)"
proof -
  from holds_load [OF assms(1)] obtain s1 where "load_stock_data lib now s = (Inr cat, s1)"
    by blast
  from consume_empty [OF this assms(2,3)] show ?thesis by blast
qed

lemma consume_same_load:
  "load_stock_data lib now s = load_stock_data lib now t \<Longrightarrow>
   consume_stock_item lib now pid s = consume_stock_item lib now pid t"
  by (simp add: consume_stock_item_def)

lemma consume_many_fifo:
  "stock_file s = Some b \<Longrightarrow> load lib b = Inr cat \<Longrightarrow> decode_error lib b = None \<Longrightarrow>
   first_match pid cat = Some (c, p) \<Longrightarrow> length nows = length (p_stock p) \<Longrightarrow>
   \<forall>i\<in>{1..length (p_stock p)}.
      reads_back lib (update_at (first_index pid cat) (drop_stock i) cat) \<Longrightarrow>
   \<exists>s'. consume_many lib nows pid s =
          (map (\<lambda>i. Inr (consumed pid c p (p_stock p ! i) (length (p_stock p) - 1 - i)))
             [0..<length (p_stock p)], s') \<and>
        holds lib s' (update_at (first_index pid cat) (drop_stock (length (p_stock p))) cat)"
proof (induction nows arbitrary: s b cat p)
  case Nil
  then show ?case by (simp add: holds_def update_at_same)
next
  case (Cons now nows)
  let ?k = "first_index pid cat"
  let ?cat1 = "update_at ?k (drop_stock (Suc 0)) cat"
  let ?p1 = "drop_stock (Suc 0) p"
  from Cons.prems(5) obtain l r where lr: "p_stock p = l # r"
    by (cases "p_stock p") auto
  have ne: "p_stock p \<noteq> []" by (simp add: lr)
  have pid: "p_id p = pid" using first_match_position [OF Cons.prems(4)] by simp
  have ld: "load_stock_data lib now s = (Inr cat, s)"
    using Cons.prems(1,2) by (rule load_present)
  have "reads_back lib ?cat1" using Cons.prems(6) by (simp add: lr)
  then obtain b1 where d1: "dump lib ?cat1 = Dumped b1" and l1: "load lib b1 = Inr ?cat1"
    and e1: "decode_error lib b1 = None"
    by (auto simp: reads_back_def split: dumped.splits)
  let ?s1 = "write_primary b1 (write_backup (backup_file now) (universal_newlines b) s)"
  have sv: "save_stock_data lib now (popped pid cat) s = (Inr True, ?s1)"
    using save_present_ok [OF Cons.prems(1,3) d1] by (simp add: popped_def)
  have step: "consume_stock_item lib now pid s = (Inr (consumed pid c p l (length r)), ?s1)"
    using consume_nonempty [OF ld Cons.prems(4) ne] sv by (simp add: lr)
  have f1: "stock_file ?s1 = Some b1" by simp
  have fm1: "first_match pid ?cat1 = Some (c, ?p1)" and fi1: "first_index pid ?cat1 = ?k"
    using first_match_update_at [OF Cons.prems(4), of "drop_stock (Suc 0)"] pid
    by (simp_all add: drop_stock_def)
  have st1: "p_stock ?p1 = r" by (simp add: drop_stock_def lr)
  have len: "length nows = length (p_stock ?p1)" using Cons.prems(5) by (simp add: st1 lr)
  have upd: "\<And>i. update_at ?k (drop_stock i) ?cat1 = update_at ?k (drop_stock (Suc i)) cat"
    by (simp add: update_at_update_at drop_stock_drop_stock)
  have rb: "\<forall>i\<in>{1..length (p_stock ?p1)}.
      reads_back lib (update_at (first_index pid ?cat1) (drop_stock i) ?cat1)"
    using Cons.prems(6) by (simp add: fi1 upd st1 lr)
  from Cons.IH [OF f1 l1 e1 fm1 len rb] obtain s' where
    many: "consume_many lib nows pid ?s1 =
        (map (\<lambda>i. Inr (consumed pid c ?p1 (p_stock ?p1 ! i) (length (p_stock ?p1) - 1 - i)))
           [0..<length (p_stock ?p1)], s')"
    and h: "holds lib s'
        (update_at (first_index pid ?cat1) (drop_stock (length (p_stock ?p1))) ?cat1)"
    by blast
  have cn: "consumed pid c ?p1 = consumed pid c p"
    by (rule consumed_name) (simp add: drop_stock_def)
  show ?case
    using step many h
    by (simp add: lr st1 cn fi1 upd map_upt_Suc del: upt_Suc)
qed

text \<open>
  Claim C2, as stated, fails for a product that is not the first with its id: in
  \<open>twins\<close> the product \<open>second\<close> of category B has one stock item and the id 7, which the
  product \<open>first\<close> of category A has as well. One consume request for the id 7 returns
  the item \<open>k1\<close> of the product \<open>first\<close>, not \<open>k3\<close>, and the request after it succeeds.
\<close>

theorem consume_many_later_duplicate_counterexample:
  "(''B'', key 7 ''second'' [''k3'']) \<in> set (located twins) \<and>
   length (p_stock (key 7 ''second'' [''k3''])) = 1 \<and>
   fst (consume_many table [clock0] 7 (file_of ''twins'')) =
     [Inr (consumed 7 ''A'' (key 7 ''first'' [''k1'', ''k2'']) \<lparr> license = ''k1'' \<rparr> 1)] \<and>
   fst (consume_stock_item table clock1 7 (snd (consume_many table [clock0] 7 (file_of ''twins'')))) =
     Inr (consumed 7 ''A'' (key 7 ''first'' [''k2'']) \<lparr> license = ''k2'' \<rparr> 0)"
proof -
  let ?s1 = "write_primary ''twins-1'' (write_backup (backup_file clock0) ''twins'' (file_of ''twins''))"
  have ne: "p_stock (key 7 ''first'' [''k1'', ''k2'']) \<noteq> []" by simp
  have one: "consume_stock_item table clock0 7 (file_of ''twins'') =
      (Inr (consumed 7 ''A'' (key 7 ''first'' [''k1'', ''k2'']) \<lparr> license = ''k1'' \<rparr> 1), ?s1)"
    using consume_nonempty [OF load_file_of(1) first_match_twins(1) ne, of clock0]
    by (simp add: popped_twins save_twins_1)
  have l1: "load_stock_data table clock1 ?s1 = (Inr twins_1, ?s1)"
    by (rule load_present [of _ "''twins-1''"]) (simp_all add: load_table)
  have fm1: "first_match 7 twins_1 = Some (''A'', key 7 ''first'' [''k2''])"
    by (simp add: first_match_def twins_1_def)
  have p1: "popped 7 twins_1 = twins_2"
    by (simp add: popped_def first_index_def twins_1_def twins_2_def)
  have ne1: "p_stock (key 7 ''first'' [''k2'']) \<noteq> []" by simp
  have sv1: "save_stock_data table clock1 twins_2 ?s1 =
      (Inr True, write_primary ''twins-2''
         (write_backup (backup_file clock1) (universal_newlines ''twins-1'') ?s1))"
    by (rule save_present_ok) (simp_all add: decode_table dump_twins)
  have two: "fst (consume_stock_item table clock1 7 ?s1) =
      Inr (consumed 7 ''A'' (key 7 ''first'' [''k2'']) \<lparr> license = ''k2'' \<rparr> 0)"
    using consume_nonempty [OF l1 fm1 ne1] by (simp add: p1 sv1)
  show ?thesis
    using one two by (simp add: located_twins)
qed

text \<open>
  Claim C2, amended. When the file system holds a catalog, a product is the first with
  its id in that catalog and has exactly N stock items, and the N catalogs that arise by
  removing 1, 2, ..., N items from the head of that product's stock are each read back
  by the library (so that each save succeeds and the next request loads what was saved),
  then N consume requests for the id, one after the other, all succeed: request number
  i (from 0) returns item i of the original stock and reports N - 1 - i items left, so
  the items come out in their original order and the count falls by one each time.
  Afterwards the file system holds the catalog in which that product's stock is empty,
  and one more consume request fails with status 400.
\<close>

theorem consume_many_empties_stock:
  assumes "holds lib s cat"
    and "first_match pid cat = Some (c, p)"
    and "length nows = length (p_stock p)"
    and "\<forall>i\<in>{1..length (p_stock p)}.
           reads_back lib (update_at (first_index pid cat) (drop_stock i) cat)"
  shows "\<exists>s' s''. consume_many lib nows pid s =
            (map (\<lambda>i. Inr (consumed pid c p (p_stock p ! i) (length (p_stock p) - 1 - i)))
               [0..<length (p_stock p)], s') \<and>
           holds lib s' (update_at (first_index pid cat) (drop_stock (length (p_stock p))) cat) \<and>
           first_match pid (update_at (first_index pid cat) (drop_stock (length (p_stock p))) cat) =
             Some (c, p\<lparr>p_stock := []\<rparr>) \<and>
           consume_stock_item lib now' pid s' = (Inl (out_of_stock p), s'') \<and>
           status_code (out_of_stock p) = 400"
proof -
  let ?last = "update_at (first_index pid cat) (drop_stock (length (p_stock p))) cat"
  have pid: "p_id p = pid" using first_match_position [OF assms(2)] by simp
  have fm: "first_match pid ?last = Some (c, p\<lparr>p_stock := []\<rparr>)"
    using first_match_update_at(1) [OF assms(2), of "drop_stock (length (p_stock p))"] pid
    by (simp add: drop_stock_def)
  have many: "\<exists>s'. consume_many lib nows pid s =
            (map (\<lambda>i. Inr (consumed pid c p (p_stock p ! i) (length (p_stock p) - 1 - i)))
               [0..<length (p_stock p)], s') \<and> holds lib s' ?last"
  proof (cases nows)
    case Nil
    with assms(3) have "p_stock p = []" by simp
    with Nil assms(1) show ?thesis by (simp add: update_at_same)
  next
    case (Cons now rest)
    from holds_load [OF assms(1), of now] obtain s1 b where
      ld: "load_stock_data lib now s = (Inr cat, s1)" and f: "stock_file s1 = Some b"
      and l: "load lib b = Inr cat" and e: "decode_error lib b = None"
      by blast
    have "load_stock_data lib now s1 = (Inr cat, s1)" using f l by (rule load_present)
    with ld have "consume_stock_item lib now pid s = consume_stock_item lib now pid s1"
      by (intro consume_same_load) simp
    then have same: "consume_many lib nows pid s = consume_many lib nows pid s1"
      by (simp add: Cons)
    from consume_many_fifo [OF f l e assms(2,3,4)] show ?thesis by (simp add: same)
  qed
  then obtain s' where
    m: "consume_many lib nows pid s =
            (map (\<lambda>i. Inr (consumed pid c p (p_stock p ! i) (length (p_stock p) - 1 - i)))
               [0..<length (p_stock p)], s')"
    and h: "holds lib s' ?last"
    by blast
  from holds_out_of_stock [OF h fm, of now'] obtain s'' where
    "consume_stock_item lib now' pid s' = (Inl (out_of_stock p), s'')"
    by (auto simp: out_of_stock_def)
  with m h fm show ?thesis by (auto simp: out_of_stock_def)
qed

theorem consume_many_empties_stock_witness:
  "holds table no_file default_data \<and>
   first_match 1 default_data = Some (''BloodStrike'', blood_strike) \<and>
   length [clock0, clock1] = length (p_stock blood_strike) \<and>
   reads_back table (update_at (first_index 1 default_data) (drop_stock 1) default_data) \<and>
   reads_back table (update_at (first_index 1 default_data) (drop_stock 2) default_data) \<and>
   (\<exists>s' s''. consume_many table [clock0, clock1] 1 no_file =
      ([Inr (consumed 1 ''BloodStrike'' blood_strike
               \<lparr> license = ''email@example.com:password123'' \<rparr> 1),
        Inr (consumed 1 ''BloodStrike'' blood_strike
               \<lparr> license = ''email2@example.com:password456'' \<rparr> 0)], s') \<and>
      holds table s' seed_2 \<and>
      consume_stock_item table clock1 1 s' = (Inl (out_of_stock blood_strike), s''))"
proof -
  have h1: "holds table no_file default_data"
    by (simp add: holds_def reads_back_seed)
  have h2: "first_match 1 default_data = Some (''BloodStrike'', blood_strike)"
    by (rule first_match_default)
  have h3: "length [clock0, clock1] = length (p_stock blood_strike)"
    by (simp add: seed_stock)
  have r1: "reads_back table (update_at (first_index 1 default_data) (drop_stock 1) default_data)"
    and r2: "reads_back table (update_at (first_index 1 default_data) (drop_stock 2) default_data)"
    using reads_back_seed by (simp_all add: seed_updates seed_1_def seed_2_def)
  have two: "{1..length (p_stock blood_strike)} = {1, 2}"
    by (auto simp: seed_stock)
  have h4: "\<forall>i\<in>{1..length (p_stock blood_strike)}.
      reads_back table (update_at (first_index 1 default_data) (drop_stock i) default_data)"
    unfolding two using r1 r2 by simp
  have last: "update_at (first_index 1 default_data) (drop_stock (length (p_stock blood_strike)))
      default_data = seed_2"
    by (simp add: seed_updates seed_2_def seed_stock numeral_2_eq_2)
  from consume_many_empties_stock [OF h1 h2 h3 h4, of clock1]
  have "\<exists>s' s''. consume_many table [clock0, clock1] 1 no_file =
      ([Inr (consumed 1 ''BloodStrike'' blood_strike
               \<lparr> license = ''email@example.com:password123'' \<rparr> 1),
        Inr (consumed 1 ''BloodStrike'' blood_strike
               \<lparr> license = ''email2@example.com:password456'' \<rparr> 0)], s') \<and>
      holds table s' seed_2 \<and>
      consume_stock_item table clock1 1 s' = (Inl (out_of_stock blood_strike), s'')"
    unfolding last by (simp add: seed_stock) blast
  then show ?thesis
    using h1 h2 h3 r1 r2 by blast
qed

section \<open>Properties of the store\<close>

lemma load_after_save:
  assumes "fst (save_stock_data lib t c s0) = Inr True"
    and "dump lib c = Dumped b" and "load lib b = Inr c"
  shows "load_stock_data lib now' (snd (save_stock_data lib t c s0)) =
           (Inr c, snd (save_stock_data lib t c s0))"
proof -
  obtain s1 where sv: "save_stock_data lib t c s0 = (Inr True, s1)"
    using assms(1) by (cases "save_stock_data lib t c s0") auto
  from save_success_file [OF sv] assms(2) have "stock_file s1 = Some b" by auto
  from load_present [OF this assms(3)] sv show ?thesis by simp
qed

text \<open>
  Claim C3. When the primary file does not exist, the load returns the default catalog
  and leaves it serialised in the primary file, with no backup written; the default
  catalog has the categories BloodStrike and Window Protection 11, each with one product,
  holding 2 and 4 stock items. A load after that returns the same catalog and writes
  nothing; and in general a load after a save that returned gives the saved catalog.
  Both rest on the JSON library dumping the catalog and reading back what it has written.
\<close>

theorem load_without_file_seeds:
  assumes "stock_file s = None"
    and "dump lib default_data = Dumped b" and "load lib b = Inr default_data"
  shows "fst (load_stock_data lib now s) = Inr default_data \<and>
         snd (load_stock_data lib now s) = snd (save_stock_data lib now default_data s) \<and>
         stock_file (snd (load_stock_data lib now s)) = Some b \<and>
         backup_dir (snd (load_stock_data lib now s)) = backup_dir s \<and>
         written (snd (load_stock_data lib now s)) = written s @ [Primary_Write b] \<and>
         load_stock_data lib now' (snd (load_stock_data lib now s)) =
           (Inr default_data, snd (load_stock_data lib now s)) \<and>
         map (\<lambda>(category, products). (category, map (\<lambda>p. length (p_stock p)) products))
           default_data = [(''BloodStrike'', [2]), (''Window Protection 11'', [4])] \<and>
         (\<forall>c s0 t b'. fst (save_stock_data lib t c s0) = Inr True \<and>
              dump lib c = Dumped b' \<and> load lib b' = Inr c \<longrightarrow>
            fst (load_stock_data lib now' (snd (save_stock_data lib t c s0))) = Inr c)"
proof -
  have l: "load_stock_data lib now s = (Inr default_data, write_primary b s)"
    using assms(1,2) by (rule load_absent)
  have sv: "save_stock_data lib now default_data s = (Inr True, write_primary b s)"
    using assms(1,2) by (simp add: save_absent)
  have again: "load_stock_data lib now' (write_primary b s) =
      (Inr default_data, write_primary b s)"
    by (rule load_present [of _ b]) (simp_all add: assms(3))
  have sizes: "map (\<lambda>(category, products). (category, map (\<lambda>p. length (p_stock p)) products))
           default_data = [(''BloodStrike'', [2]), (''Window Protection 11'', [4])]"
    by (simp add: default_data_def seed_stock)
  have gen: "\<forall>c s0 t b'. fst (save_stock_data lib t c s0) = Inr True \<and>
              dump lib c = Dumped b' \<and> load lib b' = Inr c \<longrightarrow>
            fst (load_stock_data lib now' (snd (save_stock_data lib t c s0))) = Inr c"
    by (auto simp: load_after_save)
  show ?thesis
    using sizes gen by (simp add: l sv again) (simp add: write_primary_def)
qed

theorem load_without_file_seeds_witness:
  "stock_file no_file = None \<and>
   dump table default_data = Dumped ''seed'' \<and>
   load table ''seed'' = Inr default_data \<and>
   fst (load_stock_data table clock0 no_file) = Inr default_data \<and>
   stock_file (snd (load_stock_data table clock0 no_file)) = Some ''seed'' \<and>
   written (snd (load_stock_data table clock0 no_file)) = [Primary_Write ''seed''] \<and>
   fst (load_stock_data table clock1 (snd (load_stock_data table clock0 no_file))) =
     Inr default_data \<and>
   fst (save_stock_data table clock0 twins_1 (file_of ''twins'')) = Inr True \<and>
   dump table twins_1 = Dumped ''twins-1'' \<and>
   load table ''twins-1'' = Inr twins_1 \<and>
   fst (load_stock_data table clock1 (snd (save_stock_data table clock0 twins_1 (file_of ''twins'')))) =
     Inr twins_1"
proof -
  have h1: "stock_file no_file = None" by simp
  have h2: "dump table default_data = Dumped ''seed''" by (rule dump_seed)
  have h3: "load table ''seed'' = Inr default_data" by (rule load_table)
  have g1: "fst (save_stock_data table clock0 twins_1 (file_of ''twins'')) = Inr True"
    by (simp add: save_twins_1)
  have g2: "dump table twins_1 = Dumped ''twins-1''" by (rule dump_twins)
  have g3: "load table ''twins-1'' = Inr twins_1" by (rule load_table)
  have w: "written no_file = []" by simp
  note t = load_without_file_seeds [OF h1 h2 h3, of clock0 clock1, unfolded w append_Nil]
  have a: "fst (load_stock_data table clock1 (snd (load_stock_data table clock0 no_file))) =
     Inr default_data"
    using t by (metis fst_conv)
  have b: "fst (load_stock_data table clock1
      (snd (save_stock_data table clock0 twins_1 (file_of ''twins'')))) = Inr twins_1"
    using t g1 g2 g3 by blast
  show ?thesis
    using t h1 h2 h3 g1 g2 g3 a b by blast
qed

subsection \<open>The backup\<close>

lemma CR_neq_LF [simp]: "CR \<noteq> LF" "LF \<noteq> CR"
  by (simp_all add: CR_def LF_def)

lemma universal_newlines_removes_CR: "CR \<notin> set (universal_newlines b)"
  by (induction b rule: universal_newlines.induct) (auto simp: universal_newlines.simps)

lemma universal_newlines_crlf:
  "universal_newlines (''{'' @ [CR, LF] @ ''}'') = ''{'' @ [LF] @ ''}''"
  by (simp add: universal_newlines.simps CR_def LF_def)

lemma dump_empty: "dump table [] = Dumped ''{}''"
  by (simp add: table_def strings_of_def known_def)

lemma digit_0 [simp]: "digit 0 = CHR ''0''"
  by (simp add: digit_def)

lemma str_nat_1: "n < 10 \<Longrightarrow> str_nat n = [digit n]"
  by (simp add: str_nat.simps)

lemma str_nat_2: "10 \<le> n \<Longrightarrow> n < 100 \<Longrightarrow> str_nat n = [digit (n div 10), digit n]"
  by (subst str_nat.simps) (simp add: str_nat_1)

lemma str_nat_3:
  "100 \<le> n \<Longrightarrow> n < 1000 \<Longrightarrow> str_nat n = [digit (n div 100), digit (n div 10), digit n]"
  by (subst str_nat.simps) (simp add: str_nat_2 div_mult2_eq [symmetric])

lemma str_nat_4:
  "1000 \<le> n \<Longrightarrow> n < 10000 \<Longrightarrow>
   str_nat n = [digit (n div 1000), digit (n div 100), digit (n div 10), digit n]"
  by (subst str_nat.simps) (simp add: str_nat_3 div_mult2_eq [symmetric])

lemma zfill_2: "n < 100 \<Longrightarrow> zfill 2 n = [digit (n div 10), digit n]"
  by (cases "n < 10") (simp_all add: zfill_def str_nat_1 str_nat_2)

lemma zfill_4:
  "1000 \<le> n \<Longrightarrow> n < 10000 \<Longrightarrow>
   zfill 4 n = [digit (n div 1000), digit (n div 100), digit (n div 10), digit n]"
  by (simp add: zfill_def str_nat_4)

lemma strftime_backup_digits:
  assumes "valid_datetime t"
  shows "strftime_backup t =
     [digit (dt_year t div 1000), digit (dt_year t div 100), digit (dt_year t div 10),
      digit (dt_year t),
      digit (dt_month t div 10), digit (dt_month t),
      digit (dt_day t div 10), digit (dt_day t),
      CHR ''_'',
      digit (dt_hour t div 10), digit (dt_hour t),
      digit (dt_minute t div 10), digit (dt_minute t),
      digit (dt_second t div 10), digit (dt_second t)]"
  using assms by (simp add: valid_datetime_def strftime_backup_def zfill_2 zfill_4)

text \<open>
  Claim C7, as stated, fails for a primary file with a carriage return: the file
  \<open>{\<close>, carriage return, line feed, \<open>}\<close> is a JSON document (the empty catalog), and
  the backup that a save makes of it holds \<open>{\<close>, line feed, \<open>}\<close>, which is not what the
  primary file held.
\<close>

theorem backup_of_crlf_file_counterexample:
  "stock_file (file_of (''{'' @ [CR, LF] @ ''}'')) = Some (''{'' @ [CR, LF] @ ''}'') \<and>
   load table (''{'' @ [CR, LF] @ ''}'') = Inr [] \<and>
   fst (save_stock_data table clock0 [] (file_of (''{'' @ [CR, LF] @ ''}''))) = Inr True \<and>
   backup_dir (snd (save_stock_data table clock0 [] (file_of (''{'' @ [CR, LF] @ ''}''))))
     (backup_file clock0) = Some (''{'' @ [LF] @ ''}'') \<and>
   ''{'' @ [LF] @ ''}'' \<noteq> ''{'' @ [CR, LF] @ ''}''"
proof -
  have "save_stock_data table clock0 [] (file_of (''{'' @ [CR, LF] @ ''}'')) =
      (Inr True, write_primary ''{}'' (write_backup (backup_file clock0)
         (universal_newlines (''{'' @ [CR, LF] @ ''}'')) (file_of (''{'' @ [CR, LF] @ ''}''))))"
    by (rule save_present_ok) (simp_all add: dump_empty, simp_all add: table_def CR_def LF_def)
  moreover have "load table (''{'' @ [CR, LF] @ ''}'') = Inr []"
    by (rule load_table)
  ultimately show ?thesis
    by (simp add: universal_newlines_crlf [simplified] write_primary_def write_backup_def)
qed

text \<open>
  Claim C7, amended. A save, when the primary file exists, first reads it as text and
  writes that text to the backup directory under the name \<open>stock_backup_\<close>, the clock as
  \<open>YYYYMMDD_HHMMSS\<close>, \<open>.json\<close>: the backup holds the bytes of the primary file with every
  carriage return and line feed pair, and every other carriage return, replaced by a line
  feed, so it is the primary file unchanged when that has no carriage return. Only then
  is the primary file opened for writing and the catalog dumped into it: these are the
  two writes of the save, in this order, and the save returns when the dump returns.
  When the dump raises, the save fails with status 500 after both writes, the primary
  file holding what the dump had written. When the primary file cannot be read as text,
  the save fails with status 500, leaving an empty backup file and the primary file as it
  was. When the primary file does not exist the save writes the primary file only, and
  the backup directory stays as it was.
\<close>

theorem save_backs_up_then_overwrites:
  "(\<forall>b. stock_file s = Some b \<and> decode_error lib b = None \<longrightarrow>
      written (snd (save_stock_data lib now data s)) =
        written s @ [Backup_Write (backup_file now) (universal_newlines b),
                     Primary_Write (dumped_bytes (dump lib data))] \<and>
      backup_dir (snd (save_stock_data lib now data s)) =
        (backup_dir s)(backup_file now \<mapsto> universal_newlines b) \<and>
      stock_file (snd (save_stock_data lib now data s)) = Some (dumped_bytes (dump lib data)) \<and>
      CR \<notin> set (universal_newlines b) \<and>
      (CR \<notin> set b \<longrightarrow> universal_newlines b = b)) \<and>
   (\<forall>b e. stock_file s = Some b \<and> decode_error lib b = Some e \<longrightarrow>
      save_stock_data lib now data s =
        (Inl (save_failed e), write_backup (backup_file now) [] s) \<and>
      stock_file (write_backup (backup_file now) [] s) = Some b) \<and>
   (stock_file s = None \<longrightarrow>
      written (snd (save_stock_data lib now data s)) =
        written s @ [Primary_Write (dumped_bytes (dump lib data))] \<and>
      backup_dir (snd (save_stock_data lib now data s)) = backup_dir s \<and>
      stock_file (snd (save_stock_data lib now data s)) = Some (dumped_bytes (dump lib data))) \<and>
   (\<forall>b. dump lib data = Dumped b \<and>
        (\<forall>b0. stock_file s = Some b0 \<longrightarrow> decode_error lib b0 = None) \<longrightarrow>
      fst (save_stock_data lib now data s) = Inr True) \<and>
   (\<forall>partial e. dump lib data = Dump_Raises partial e \<and>
        (\<forall>b0. stock_file s = Some b0 \<longrightarrow> decode_error lib b0 = None) \<longrightarrow>
      fst (save_stock_data lib now data s) = Inl (save_failed e)) \<and>
   (\<forall>e. status_code (save_failed e) = 500) \<and>
   backup_file now = ''stock_backup_'' @ strftime_backup now @ ''.json'' \<and>
   (valid_datetime now \<longrightarrow>
      strftime_backup now =
        [digit (dt_year now div 1000), digit (dt_year now div 100), digit (dt_year now div 10),
         digit (dt_year now),
         digit (dt_month now div 10), digit (dt_month now),
         digit (dt_day now div 10), digit (dt_day now),
         CHR ''_'',
         digit (dt_hour now div 10), digit (dt_hour now),
         digit (dt_minute now div 10), digit (dt_minute now),
         digit (dt_second now div 10), digit (dt_second now)])"
proof -
  have present: "\<forall>b. stock_file s = Some b \<and> decode_error lib b = None \<longrightarrow>
      written (snd (save_stock_data lib now data s)) =
        written s @ [Backup_Write (backup_file now) (universal_newlines b),
                     Primary_Write (dumped_bytes (dump lib data))] \<and>
      backup_dir (snd (save_stock_data lib now data s)) =
        (backup_dir s)(backup_file now \<mapsto> universal_newlines b) \<and>
      stock_file (snd (save_stock_data lib now data s)) = Some (dumped_bytes (dump lib data)) \<and>
      CR \<notin> set (universal_newlines b) \<and>
      (CR \<notin> set b \<longrightarrow> universal_newlines b = b)"
    by (auto simp: save_stock_data_def create_backup_present write_primary_def write_backup_def
        universal_newlines_removes_CR universal_newlines_no_CR split: dumped.splits)
  have unreadable: "\<forall>b e. stock_file s = Some b \<and> decode_error lib b = Some e \<longrightarrow>
      save_stock_data lib now data s =
        (Inl (save_failed e), write_backup (backup_file now) [] s) \<and>
      stock_file (write_backup (backup_file now) [] s) = Some b"
    by (simp add: save_stock_data_def create_backup_raises)
  have absent: "stock_file s = None \<longrightarrow>
      written (snd (save_stock_data lib now data s)) =
        written s @ [Primary_Write (dumped_bytes (dump lib data))] \<and>
      backup_dir (snd (save_stock_data lib now data s)) = backup_dir s \<and>
      stock_file (snd (save_stock_data lib now data s)) = Some (dumped_bytes (dump lib data))"
    by (auto simp: save_absent write_primary_def split: dumped.splits)
  have ok: "\<forall>b. dump lib data = Dumped b \<and>
        (\<forall>b0. stock_file s = Some b0 \<longrightarrow> decode_error lib b0 = None) \<longrightarrow>
      fst (save_stock_data lib now data s) = Inr True"
    by (cases "stock_file s") (auto simp: save_stock_data_def create_backup_def)
  have raises: "\<forall>partial e. dump lib data = Dump_Raises partial e \<and>
        (\<forall>b0. stock_file s = Some b0 \<longrightarrow> decode_error lib b0 = None) \<longrightarrow>
      fst (save_stock_data lib now data s) = Inl (save_failed e)"
    by (cases "stock_file s") (auto simp: save_stock_data_def create_backup_def)
  have st: "\<forall>e. status_code (save_failed e) = 500" by (simp add: save_failed_def)
  have name: "backup_file now = ''stock_backup_'' @ strftime_backup now @ ''.json''"
    by (simp add: backup_file_def)
  show ?thesis
    using present unreadable absent ok raises st name strftime_backup_digits [of now]
    by blast
qed


theorem save_backs_up_then_overwrites_witness:
  "stock_file (file_of ''twins'') = Some ''twins'' \<and>
   decode_error table ''twins'' = None \<and>
   dump table twins_1 = Dumped ''twins-1'' \<and>
   fst (save_stock_data table clock0 twins_1 (file_of ''twins'')) = Inr True \<and>
   written (snd (save_stock_data table clock0 twins_1 (file_of ''twins''))) =
     [Backup_Write ''stock_backup_20250715_093005.json'' ''twins'', Primary_Write ''twins-1''] \<and>
   backup_dir (snd (save_stock_data table clock0 twins_1 (file_of ''twins'')))
     ''stock_backup_20250715_093005.json'' = Some ''twins'' \<and>
   stock_file (file_of [CHR 0xFF]) = Some [CHR 0xFF] \<and>
   decode_error table [CHR 0xFF] = Some ''invalid start byte'' \<and>
   save_stock_data table clock0 twins_1 (file_of [CHR 0xFF]) =
     (Inl (save_failed ''invalid start byte''),
      write_backup (backup_file clock0) [] (file_of [CHR 0xFF])) \<and>
   stock_file no_file = None \<and>
   written (snd (save_stock_data table clock0 twins_1 no_file)) = [Primary_Write ''twins-1''] \<and>
   backup_dir (snd (save_stock_data table clock0 twins_1 no_file))
     ''stock_backup_20250715_093005.json'' = None \<and>
   stock_file (file_of ''tainted'') = Some ''tainted'' \<and>
   decode_error table ''tainted'' = None \<and>
   dump table (popped 7 tainted) = Dump_Raises ''{'' ''surrogates not allowed'' \<and>
   fst (save_stock_data table clock0 (popped 7 tainted) (file_of ''tainted'')) =
     Inl (save_failed ''surrogates not allowed'') \<and>
   stock_file (snd (save_stock_data table clock0 (popped 7 tainted) (file_of ''tainted''))) =
     Some ''{'' \<and>
   valid_datetime clock0 \<and>
   backup_file clock0 = ''stock_backup_20250715_093005.json''"
proof -
  have v: "valid_datetime clock0" by (simp add: valid_datetime_def clock0_def)
  note t1 = save_backs_up_then_overwrites [of "file_of ''twins''" table clock0 twins_1]
  note t2 = save_backs_up_then_overwrites [of "file_of [CHR 0xFF]" table clock0 twins_1]
  note t3 = save_backs_up_then_overwrites [of no_file table clock0 twins_1]
  note t4 = save_backs_up_then_overwrites [of "file_of ''tainted''" table clock0 "popped 7 tainted"]
  have n: "backup_file clock0 = ''stock_backup_20250715_093005.json''"
    using t1 v by (simp add: clock0_def digit_def)
  have d1: "dump table twins_1 = Dumped ''twins-1''" by (rule dump_twins)
  have d4: "dump table (popped 7 tainted) = Dump_Raises ''{'' ''surrogates not allowed''"
    by (simp add: tainted_facts)
  have e2: "decode_error table [CHR 0xFF] = Some ''invalid start byte''" by (rule decode_table)
  have a1: "fst (save_stock_data table clock0 twins_1 (file_of ''twins'')) = Inr True"
    using t1 d1 by (simp add: decode_table)
  have a2: "written (snd (save_stock_data table clock0 twins_1 (file_of ''twins''))) =
     [Backup_Write ''stock_backup_20250715_093005.json'' ''twins'', Primary_Write ''twins-1'']"
    using t1 by (simp add: decode_table d1 n)
  have a3: "backup_dir (snd (save_stock_data table clock0 twins_1 (file_of ''twins'')))
     ''stock_backup_20250715_093005.json'' = Some ''twins''"
    using t1 by (simp add: decode_table d1 n)
  have b1: "save_stock_data table clock0 twins_1 (file_of [CHR 0xFF]) =
     (Inl (save_failed ''invalid start byte''),
      write_backup (backup_file clock0) [] (file_of [CHR 0xFF]))"
    using t2 e2 by simp
  have c1: "written (snd (save_stock_data table clock0 twins_1 no_file)) =
      [Primary_Write ''twins-1'']"
    using t3 by (simp add: d1)
  have c2: "backup_dir (snd (save_stock_data table clock0 twins_1 no_file))
     ''stock_backup_20250715_093005.json'' = None"
    using t3 by simp
  have f1: "fst (save_stock_data table clock0 (popped 7 tainted) (file_of ''tainted'')) =
     Inl (save_failed ''surrogates not allowed'')"
    using t4 d4 by (simp add: decode_table)
  have f2: "stock_file (snd (save_stock_data table clock0 (popped 7 tainted)
      (file_of ''tainted''))) = Some ''{''"
    using t4 by (simp add: decode_table d4)
  show ?thesis
    using v n d1 d4 e2 a1 a2 a3 b1 c1 c2 f1 f2 by (simp add: decode_table)
qed

section \<open>Reading products and statistics\<close>

text \<open>
  Claim C6. In a catalog whose product ids are unique, a request for the id of any
  product of the catalog returns exactly that product; a request for an id that no
  product has fails with status 404. (The response model \<open>Product\<close> has the fields of the
  record, so validating the returned product against it changes nothing.)
\<close>

theorem get_product_returns_it:
  assumes "load_stock_data lib now s = (Inr cat, s1)"
    and "distinct (map p_id (all_products cat))"
  shows "(\<forall>p \<in> set (all_products cat). get_product lib now (p_id p) s = (Inr p, s1)) \<and>
         (\<forall>pid. pid \<notin> p_id ` set (all_products cat) \<longrightarrow>
            get_product lib now pid s = (Inl (not_found pid), s1) \<and>
            status_code (not_found pid) = 404)"
proof (intro conjI ballI allI impI)
  fix p
  assume "p \<in> set (all_products cat)"
  then have "p \<in> snd ` set (located cat)"
    by (simp add: snd_located [symmetric] del: snd_located)
  then obtain c where "(c, p) \<in> set (located cat)" by auto
  with assms(2) have "first_match (p_id p) cat = Some (c, p)"
    by (rule first_match_unique)
  then show "get_product lib now (p_id p) s = (Inr p, s1)"
    using assms(1) by (simp add: get_product_def get_product_scan_first_match)
next
  fix pid
  assume "pid \<notin> p_id ` set (all_products cat)"
  then have "first_match pid cat = None" by (simp add: first_match_None_iff)
  then show "get_product lib now pid s = (Inl (not_found pid), s1)"
    using assms(1) by (simp add: get_product_def get_product_scan_first_match)
  show "status_code (not_found pid) = 404" by (simp add: not_found_def)
qed

theorem get_product_returns_it_witness:
  "load_stock_data table clock0 (file_of ''seed'') = (Inr default_data, file_of ''seed'') \<and>
   distinct (map p_id (all_products default_data)) \<and>
   window_protection \<in> set (all_products default_data) \<and>
   get_product table clock0 2 (file_of ''seed'') = (Inr window_protection, file_of ''seed'') \<and>
   5 \<notin> p_id ` set (all_products default_data) \<and>
   get_product table clock0 5 (file_of ''seed'') = (Inl (not_found 5), file_of ''seed'')"
proof -
  have h1: "load_stock_data table clock0 (file_of ''seed'') = (Inr default_data, file_of ''seed'')"
    by (rule load_file_of)
  have h2: "distinct (map p_id (all_products default_data))"
    by (simp add: all_products_default)
  have m: "window_protection \<in> set (all_products default_data)"
    by (simp add: all_products_default)
  have n: "5 \<notin> p_id ` set (all_products default_data)"
    by (simp add: all_products_default)
  note t = get_product_returns_it [OF h1 h2]
  have a: "get_product table clock0 2 (file_of ''seed'') = (Inr window_protection, file_of ''seed'')"
    using t m by fastforce
  have b: "get_product table clock0 5 (file_of ''seed'') = (Inl (not_found 5), file_of ''seed'')"
    using t n by blast
  show ?thesis using h1 h2 m n a b by blast
qed

lemma dashboard_in_eq:
  "dashboard_in c ps (total_stock, low) =
     (total_stock + sum_list (map (\<lambda>p. length (p_stock p)) ps),
      low @ map (\<lambda>p. low_entry (c, p)) (filter low_stock ps))"
  by (induction ps arbitrary: total_stock low) (simp_all add: low_entry_def low_stock_def Let_def)

lemma dashboard_loop_eq:
  "dashboard_loop cat (total_products, total_stock, low) =
     (total_products + sum_list (map (\<lambda>(c, ps). length ps) cat),
      total_stock + sum_list (map (\<lambda>p. length (p_stock p)) (all_products cat)),
      low @ map low_entry (filter (\<lambda>(c, p). low_stock p) (located cat)))"
proof (induction cat arbitrary: total_products total_stock low)
  case Nil
  show ?case by (simp add: all_products_def)
next
  case (Cons a cat)
  obtain c ps where a: "a = (c, ps)" by (cases a)
  have all: "all_products ((c, ps) # cat) = ps @ all_products cat"
    by (simp add: all_products_def)
  show ?case
    by (simp add: a Cons.IH dashboard_in_eq all filter_map comp_def)
qed

lemma length_low_located:
  "length (filter (\<lambda>(c, p). low_stock p) (located cat)) =
   length (filter low_stock (all_products cat))"
proof -
  have "filter low_stock (map snd (located cat)) =
        map snd (filter (\<lambda>(c, p). low_stock p) (located cat))"
    by (simp add: filter_map comp_def case_prod_unfold del: snd_located)
  then show ?thesis
    by (metis length_map snd_located)
qed

lemma length_all_products:
  "length (all_products cat) = sum_list (map (\<lambda>(c, ps). length ps) cat)"
  by (induction cat) (auto simp: all_products_def)

text \<open>
  Claim C5. For every catalog the dashboard reports the number of categories, the sum of
  the lengths of the categories' product lists as the number of products, the sum of the
  lengths of all products' stocks as the number of stock items, and the number of
  products with at most 3 stock items as the low-stock count (its low-stock list holds
  the entries of exactly those products, in order). On the default catalog these are 2,
  2, 6 and 1.
\<close>

theorem dashboard_totals:
  assumes "load_stock_data lib now s = (Inr cat, s1)"
  shows "\<exists>d. get_dashboard_stats lib now s = (Inr d, s1) \<and>
           da_total_categories d = length cat \<and>
           da_total_products d = sum_list (map (\<lambda>(c, ps). length ps) cat) \<and>
           da_total_stock_items d = sum_list (map (\<lambda>p. length (p_stock p)) (all_products cat)) \<and>
           da_low_stock_products d =
             map low_entry (filter (\<lambda>(c, p). length (p_stock p) \<le> 3) (located cat)) \<and>
           da_low_stock_count d =
             length (filter (\<lambda>p. length (p_stock p) \<le> 3) (all_products cat)) \<and>
           (cat = default_data \<longrightarrow>
              da_total_categories d = 2 \<and> da_total_products d = 2 \<and>
              da_total_stock_items d = 6 \<and> da_low_stock_count d = 1)"
proof -
  have low: "low_stock = (\<lambda>p. length (p_stock p) \<le> 3)"
    by (simp add: fun_eq_iff low_stock_def)
  have seed: "cat = default_data \<Longrightarrow>
      length cat = 2 \<and> sum_list (map (\<lambda>(c, ps). length ps) cat) = 2 \<and>
      sum_list (map (\<lambda>p. length (p_stock p)) (all_products cat)) = 6 \<and>
      length (filter low_stock (all_products cat)) = 1"
    by (simp add: all_products_default seed_stock low_stock_def) (simp add: default_data_def)
  show ?thesis
    using assms seed
    by (simp add: get_dashboard_stats_def dashboard_loop_eq length_low_located low [symmetric])
qed

theorem dashboard_totals_witness:
  "load_stock_data table clock0 (file_of ''seed'') = (Inr default_data, file_of ''seed'') \<and>
   (\<exists>d. get_dashboard_stats table clock0 (file_of ''seed'') = (Inr d, file_of ''seed'') \<and>
      da_total_categories d = 2 \<and> da_total_products d = 2 \<and>
      da_total_stock_items d = 6 \<and> da_low_stock_count d = 1 \<and>
      map ls_id (da_low_stock_products d) = [1])"
proof -
  have h1: "load_stock_data table clock0 (file_of ''seed'') = (Inr default_data, file_of ''seed'')"
    by (rule load_file_of)
  have l: "map ls_id (map low_entry
      (filter (\<lambda>(c, p). length (p_stock p) \<le> 3) (located default_data))) = [1]"
    by (simp add: located_default seed_stock low_entry_def)
  from dashboard_totals [OF h1] obtain d where
    "get_dashboard_stats table clock0 (file_of ''seed'') = (Inr d, file_of ''seed'')"
    "da_low_stock_products d =
       map low_entry (filter (\<lambda>(c, p). length (p_stock p) \<le> 3) (located default_data))"
    "da_total_categories d = 2 \<and> da_total_products d = 2 \<and>
     da_total_stock_items d = 6 \<and> da_low_stock_count d = 1"
    by blast
  then show ?thesis using h1 l by auto
qed

section \<open>The read operations depend on the primary file only\<close>

lemma fst_load_cong:
  "stock_file s1 = stock_file s2 \<Longrightarrow>
   fst (load_stock_data lib now1 s1) = fst (load_stock_data lib now2 s2)"
  by (simp add: load_stock_data_def save_absent split: option.splits sum.splits dumped.splits)

lemma fst_get_all_products:
  "fst (get_all_products lib now s) =
     (case fst (load_stock_data lib now s) of
        Inl e \<Rightarrow> Inl (HTTPException 500 (exc_str e))
      | Inr stock_data \<Rightarrow> Inr (extend_all stock_data []))"
  by (simp add: get_all_products_def split: prod.splits sum.splits)

lemma fst_get_product:
  "fst (get_product lib now pid s) =
     (case fst (load_stock_data lib now s) of
        Inl e \<Rightarrow> Inl e
      | Inr stock_data \<Rightarrow>
          (case get_product_scan pid stock_data of
             Some product \<Rightarrow> Inr product
           | None \<Rightarrow> Inl (not_found pid)))"
  by (simp add: get_product_def split: prod.splits sum.splits option.splits)

lemma fst_get_categories:
  "fst (get_categories lib now s) =
     (case fst (load_stock_data lib now s) of
        Inl e \<Rightarrow> Inl (HTTPException 500 (exc_str e))
      | Inr stock_data \<Rightarrow> Inr (categories_loop stock_data []))"
  by (simp add: get_categories_def split: prod.splits sum.splits)

lemma fst_get_products_by_category:
  "fst (get_products_by_category lib now name s) =
     (case fst (load_stock_data lib now s) of
        Inl e \<Rightarrow> Inl e
      | Inr stock_data \<Rightarrow>
          (case map_of stock_data name of
             None \<Rightarrow>
               Inl (HTTPException 404 (''Category '' @ [CHR 39] @ name @ [CHR 39] @ '' not found''))
           | Some products \<Rightarrow> Inr \<lparr> cr_category = name, cr_products = products \<rparr>))"
  by (simp add: get_products_by_category_def split: prod.splits sum.splits option.splits)

lemma fst_get_product_stock:
  "fst (get_product_stock lib now pid s) =
     (case fst (load_stock_data lib now s) of
        Inl e \<Rightarrow> Inl e
      | Inr stock_data \<Rightarrow>
          (case get_product_stock_scan pid stock_data of
             Some r \<Rightarrow> Inr r
           | None \<Rightarrow> Inl (not_found pid)))"
  by (simp add: get_product_stock_def split: prod.splits sum.splits option.splits)

text \<open>
  Claim C10. The response of each of the five read operations (list of products, one
  product, categories, one category, stock of a product) is determined by the contents
  of the primary file and the input of the request: for two file systems with the same
  primary file, whatever their backup directories and their histories of writes, and for
  any two clock values, the responses to the same input are equal.
\<close>

theorem read_responses_depend_on_file_only:
  assumes "stock_file s1 = stock_file s2"
  shows "fst (get_all_products lib now1 s1) = fst (get_all_products lib now2 s2) \<and>
         fst (get_product lib now1 pid s1) = fst (get_product lib now2 pid s2) \<and>
         fst (get_categories lib now1 s1) = fst (get_categories lib now2 s2) \<and>
         fst (get_products_by_category lib now1 name s1) =
           fst (get_products_by_category lib now2 name s2) \<and>
         fst (get_product_stock lib now1 pid s1) = fst (get_product_stock lib now2 pid s2)"
  using fst_load_cong [OF assms, of lib now1 now2]
  by (simp add: fst_get_all_products fst_get_product fst_get_categories
      fst_get_products_by_category fst_get_product_stock)

theorem read_responses_depend_on_file_only_witness:
  "stock_file (file_of ''seed'') =
     stock_file (snd (save_stock_data table clock0 default_data (file_of ''twins''))) \<and>
   written (file_of ''seed'') \<noteq>
     written (snd (save_stock_data table clock0 default_data (file_of ''twins''))) \<and>
   clock0 \<noteq> clock1 \<and>
   fst (get_product table clock0 2 (file_of ''seed'')) = Inr window_protection \<and>
   fst (get_product table clock1 2
          (snd (save_stock_data table clock0 default_data (file_of ''twins'')))) =
     Inr window_protection \<and>
   fst (get_categories table clock0 (file_of ''seed'')) =
     fst (get_categories table clock1
            (snd (save_stock_data table clock0 default_data (file_of ''twins''))))"
proof -
  have sv: "save_stock_data table clock0 default_data (file_of ''twins'') =
      (Inr True, write_primary ''seed''
         (write_backup (backup_file clock0) (universal_newlines ''twins'') (file_of ''twins'')))"
    by (rule save_present_ok) (simp_all add: decode_table dump_seed)
  have h: "stock_file (file_of ''seed'') =
     stock_file (snd (save_stock_data table clock0 default_data (file_of ''twins'')))"
    by (simp add: sv)
  have w: "written (file_of ''seed'') \<noteq>
     written (snd (save_stock_data table clock0 default_data (file_of ''twins'')))"
    by (simp add: sv write_primary_def)
  have c: "clock0 \<noteq> clock1" by (simp add: clock0_def clock1_def)
  have g: "fst (get_product table clock0 2 (file_of ''seed'')) = Inr window_protection"
    using load_file_of(2) [of clock0]
    by (simp add: get_product_def get_product_scan_first_match first_match_default)
  note t = read_responses_depend_on_file_only [OF h, of table clock0 clock1 2 "''A''"]
  show ?thesis using t h w c g by metis
qed

section \<open>Which operations write\<close>

lemma snd_health_check: "snd (health_check lib now s) = after_load lib s"
  by (rule load_cases [of lib now s]) (simp_all add: health_check_def)

lemma snd_get_all_products: "snd (get_all_products lib now s) = after_load lib s"
  by (rule load_cases [of lib now s]) (simp_all add: get_all_products_def)

lemma snd_get_product: "snd (get_product lib now pid s) = after_load lib s"
  by (rule load_cases [of lib now s]) (simp_all add: get_product_def split: option.splits)

lemma snd_get_categories: "snd (get_categories lib now s) = after_load lib s"
  by (rule load_cases [of lib now s]) (simp_all add: get_categories_def)

lemma snd_get_products_by_category:
  "snd (get_products_by_category lib now name s) = after_load lib s"
  by (rule load_cases [of lib now s])
    (simp_all add: get_products_by_category_def split: option.splits)

lemma snd_get_product_stock: "snd (get_product_stock lib now pid s) = after_load lib s"
  by (rule load_cases [of lib now s]) (simp_all add: get_product_stock_def split: option.splits)

lemma snd_get_dashboard_stats: "snd (get_dashboard_stats lib now s) = after_load lib s"
  by (rule load_cases [of lib now s]) (simp_all add: get_dashboard_stats_def split: prod.splits)

lemma consume_outcome:
  obtains
    (load_fails) e where "load_stock_data lib now s = (Inl e, after_load lib s)"
      and "consume_stock_item lib now pid s = (Inl e, after_load lib s)"
  | (unknown) cat where "load_stock_data lib now s = (Inr cat, after_load lib s)"
      and "first_match pid cat = None"
      and "consume_stock_item lib now pid s = (Inl (not_found pid), after_load lib s)"
  | (empty) cat c p where "load_stock_data lib now s = (Inr cat, after_load lib s)"
      and "first_match pid cat = Some (c, p)" and "p_stock p = []"
      and "consume_stock_item lib now pid s = (Inl (out_of_stock p), after_load lib s)"
  | (save_fails) cat c p e s2 where "load_stock_data lib now s = (Inr cat, after_load lib s)"
      and "first_match pid cat = Some (c, p)" and "p_stock p \<noteq> []"
      and "save_stock_data lib now (popped pid cat) (after_load lib s) = (Inl e, s2)"
      and "consume_stock_item lib now pid s = (Inl e, s2)"
  | (saved) cat c p s2 where "load_stock_data lib now s = (Inr cat, after_load lib s)"
      and "first_match pid cat = Some (c, p)" and "p_stock p \<noteq> []"
      and "save_stock_data lib now (popped pid cat) (after_load lib s) = (Inr True, s2)"
      and "consume_stock_item lib now pid s =
             (Inr (consumed pid c p (hd (p_stock p)) (length (tl (p_stock p)))), s2)"
proof (rule load_cases [of lib now s])
  fix e
  assume l: "load_stock_data lib now s = (Inl e, after_load lib s)"
  then have "consume_stock_item lib now pid s = (Inl e, after_load lib s)"
    by (simp add: consume_stock_item_def)
  with l show thesis by (rule load_fails)
next
  fix cat
  assume l: "load_stock_data lib now s = (Inr cat, after_load lib s)"
  show thesis
  proof (cases "first_match pid cat")
    case None
    from l None consume_unknown [OF l None] show thesis by (rule unknown)
  next
    case (Some cp)
    obtain c p where cp: "cp = (c, p)" by (cases cp)
    have fm: "first_match pid cat = Some (c, p)" using Some cp by simp
    show thesis
    proof (cases "p_stock p = []")
      case True
      from l fm True consume_empty [OF l fm True] show thesis by (rule empty)
    next
      case False
      note co = consume_nonempty [OF l fm False]
      show thesis
      proof (cases "save_stock_data lib now (popped pid cat) (after_load lib s)")
        case (Pair r s2)
        show thesis
        proof (cases r)
          case (Inl e)
          with Pair co have "consume_stock_item lib now pid s = (Inl e, s2)" by simp
          with l fm False Pair Inl show thesis by (intro save_fails) simp_all
        next
          case (Inr v)
          with Pair save_returns_True have v: "v = True" by blast
          with Pair Inr co have "consume_stock_item lib now pid s =
             (Inr (consumed pid c p (hd (p_stock p)) (length (tl (p_stock p)))), s2)"
            by simp
          with l fm False Pair Inr v show thesis by (intro saved) simp_all
        qed
      qed
    qed
  qed
qed

lemma save_writes:
  assumes "save_stock_data lib now data s1 = (Inr True, s2)" and "stock_file s1 = Some b0"
  shows "\<exists>b. dump lib data = Dumped b \<and>
           written s2 = written s1 @
             [Backup_Write (backup_file now) (universal_newlines b0), Primary_Write b]"
  using assms
  by (auto simp: save_stock_data_def create_backup_def write_primary_def write_backup_def
      split: option.splits dumped.splits)

text \<open>
  Claim C4, as stated, fails when the primary file does not exist: the load inside any
  operation then saves the default catalog. A consume request for an unknown id on an
  empty file system answers 404 and has written the primary file, and so has a request
  for the list of products.
\<close>

theorem failing_consume_writes_seed_counterexample:
  "stock_file no_file = None \<and> written no_file = [] \<and>
   fst (consume_stock_item table clock0 99 no_file) = Inl (not_found 99) \<and>
   status_code (not_found 99) = 404 \<and>
   written (snd (consume_stock_item table clock0 99 no_file)) = [Primary_Write ''seed''] \<and>
   stock_file (snd (consume_stock_item table clock0 99 no_file)) = Some ''seed'' \<and>
   written (snd (get_all_products table clock0 no_file)) = [Primary_Write ''seed''] \<and>
   stock_file (snd (get_all_products table clock0 no_file)) = Some ''seed''"
proof -
  have l: "load_stock_data table clock0 no_file =
      (Inr default_data, write_primary ''seed'' no_file)"
    by (rule load_absent) (simp_all add: dump_seed)
  have "99 \<notin> p_id ` set (all_products default_data)"
    by (simp add: all_products_default)
  then have "first_match 99 default_data = None" by (simp add: first_match_None_iff)
  from consume_unknown [OF l this] l show ?thesis
    by (simp add: get_all_products_def write_primary_def not_found_def)
qed

text \<open>
  Claim C4, amended. Every read operation (health, list of products, one product,
  categories, one category, stock of a product, dashboard) and every consume request that
  fails with status 404 or 400 leaves the file system as the load leaves it: unchanged,
  with nothing written, when the primary file exists; and when it does not exist, changed
  by the one write of the default catalog's dump to the primary file, with no backup. A
  consume request that fails with status 500 either leaves the file system as the load
  leaves it as well, or it has failed in its save, after the writes of that save. A
  consume request that succeeds writes, after the load, a backup of the primary file and
  then the primary file.
\<close>

theorem only_consume_changes_existing_store:
  "snd (health_check lib now s) = after_load lib s \<and>
   snd (get_all_products lib now s) = after_load lib s \<and>
   snd (get_product lib now pid s) = after_load lib s \<and>
   snd (get_categories lib now s) = after_load lib s \<and>
   snd (get_products_by_category lib now name s) = after_load lib s \<and>
   snd (get_product_stock lib now pid s) = after_load lib s \<and>
   snd (get_dashboard_stats lib now s) = after_load lib s \<and>
   (\<forall>e. fst (consume_stock_item lib now pid s) = Inl e \<and>
        (status_code e = 404 \<or> status_code e = 400) \<longrightarrow>
      snd (consume_stock_item lib now pid s) = after_load lib s) \<and>
   (\<forall>e. fst (consume_stock_item lib now pid s) = Inl e \<and>
        snd (consume_stock_item lib now pid s) \<noteq> after_load lib s \<longrightarrow>
      status_code e = 500 \<and>
      (\<exists>cat'. save_stock_data lib now cat' (after_load lib s) =
         (Inl e, snd (consume_stock_item lib now pid s)))) \<and>
   (\<forall>b. stock_file s = Some b \<longrightarrow> after_load lib s = s) \<and>
   (stock_file s = None \<longrightarrow>
      stock_file (after_load lib s) = Some (dumped_bytes (dump lib default_data)) \<and>
      backup_dir (after_load lib s) = backup_dir s \<and>
      written (after_load lib s) =
        written s @ [Primary_Write (dumped_bytes (dump lib default_data))]) \<and>
   (\<forall>r. fst (consume_stock_item lib now pid s) = Inr r \<longrightarrow>
      (\<exists>cat' b0 b. stock_file (after_load lib s) = Some b0 \<and> dump lib cat' = Dumped b \<and>
         written (snd (consume_stock_item lib now pid s)) =
           written (after_load lib s) @
             [Backup_Write (backup_file now) (universal_newlines b0), Primary_Write b]))"
proof -
  have quiet: "\<forall>e. fst (consume_stock_item lib now pid s) = Inl e \<and>
        (status_code e = 404 \<or> status_code e = 400) \<longrightarrow>
      snd (consume_stock_item lib now pid s) = after_load lib s"
  proof (intro allI impI)
    fix e
    assume a: "fst (consume_stock_item lib now pid s) = Inl e \<and>
        (status_code e = 404 \<or> status_code e = 400)"
    show "snd (consume_stock_item lib now pid s) = after_load lib s"
    proof (cases rule: consume_outcome [of lib now s pid])
      case (load_fails e')
      then show ?thesis by simp
    next
      case (unknown cat)
      then show ?thesis by simp
    next
      case (empty cat c p)
      then show ?thesis by simp
    next
      case (save_fails cat c p e' s2)
      from save_fails(5) a have "e' = e" by simp
      with save_status [OF save_fails(4)] have "status_code e = 500" by simp
      with a show ?thesis by simp
    next
      case (saved cat c p s2)
      from saved(5) a show ?thesis by simp
    qed
  qed
  have loud: "\<forall>e. fst (consume_stock_item lib now pid s) = Inl e \<and>
        snd (consume_stock_item lib now pid s) \<noteq> after_load lib s \<longrightarrow>
      status_code e = 500 \<and>
      (\<exists>cat'. save_stock_data lib now cat' (after_load lib s) =
         (Inl e, snd (consume_stock_item lib now pid s)))"
  proof (intro allI impI)
    fix e
    assume a: "fst (consume_stock_item lib now pid s) = Inl e \<and>
        snd (consume_stock_item lib now pid s) \<noteq> after_load lib s"
    show "status_code e = 500 \<and>
      (\<exists>cat'. save_stock_data lib now cat' (after_load lib s) =
         (Inl e, snd (consume_stock_item lib now pid s)))"
    proof (cases rule: consume_outcome [of lib now s pid])
      case (load_fails e')
      from load_fails(2) a show ?thesis by simp
    next
      case (unknown cat)
      from unknown(3) a show ?thesis by simp
    next
      case (empty cat c p)
      from empty(4) a show ?thesis by simp
    next
      case (save_fails cat c p e' s2)
      from save_fails(5) a have e: "e' = e" by simp
      have "status_code e = 500" using save_status [OF save_fails(4)] e by simp
      moreover have "save_stock_data lib now (popped pid cat) (after_load lib s) =
          (Inl e, snd (consume_stock_item lib now pid s))"
        using save_fails(4,5) e by simp
      ultimately show ?thesis by blast
    next
      case (saved cat c p s2)
      from saved(5) a show ?thesis by simp
    qed
  qed
  have a: "\<forall>b. stock_file s = Some b \<longrightarrow> after_load lib s = s"
    by (simp add: after_load_def)
  have b: "stock_file s = None \<longrightarrow>
      stock_file (after_load lib s) = Some (dumped_bytes (dump lib default_data)) \<and>
      backup_dir (after_load lib s) = backup_dir s \<and>
      written (after_load lib s) =
        written s @ [Primary_Write (dumped_bytes (dump lib default_data))]"
    by (simp add: after_load_def write_primary_def)
  have good: "\<forall>r. fst (consume_stock_item lib now pid s) = Inr r \<longrightarrow>
      (\<exists>cat' b0 b. stock_file (after_load lib s) = Some b0 \<and> dump lib cat' = Dumped b \<and>
         written (snd (consume_stock_item lib now pid s)) =
           written (after_load lib s) @
             [Backup_Write (backup_file now) (universal_newlines b0), Primary_Write b])"
  proof (intro allI impI)
    fix r
    assume r: "fst (consume_stock_item lib now pid s) = Inr r"
    from stock_file_after_load [of lib s] obtain b0
      where b0: "stock_file (after_load lib s) = Some b0" ..
    show "\<exists>cat' b0 b. stock_file (after_load lib s) = Some b0 \<and> dump lib cat' = Dumped b \<and>
         written (snd (consume_stock_item lib now pid s)) =
           written (after_load lib s) @
             [Backup_Write (backup_file now) (universal_newlines b0), Primary_Write b]"
    proof (cases rule: consume_outcome [of lib now s pid])
      case (load_fails e')
      from load_fails(2) r show ?thesis by simp
    next
      case (unknown cat)
      from unknown(3) r show ?thesis by simp
    next
      case (empty cat c p)
      from empty(4) r show ?thesis by simp
    next
      case (save_fails cat c p e' s2)
      from save_fails(5) r show ?thesis by simp
    next
      case (saved cat c p s2)
      from save_writes [OF saved(4) b0] obtain b where
        "dump lib (popped pid cat) = Dumped b"
        "written s2 = written (after_load lib s) @
           [Backup_Write (backup_file now) (universal_newlines b0), Primary_Write b]"
        by blast
      with saved(5) b0 show ?thesis by (intro exI [of _ "popped pid cat"] exI [of _ b0] exI [of _ b]) simp
    qed
  qed
  show ?thesis
    by (intro conjI snd_health_check snd_get_all_products snd_get_product snd_get_categories
        snd_get_products_by_category snd_get_product_stock snd_get_dashboard_stats
        quiet loud a b good)
qed


theorem only_consume_changes_existing_store_witness:
  "fst (consume_stock_item table clock0 99 (file_of ''twins'')) = Inl (not_found 99) \<and>
   status_code (not_found 99) = 404 \<and>
   stock_file (file_of ''twins'') = Some ''twins'' \<and>
   snd (consume_stock_item table clock0 99 (file_of ''twins'')) = file_of ''twins'' \<and>
   snd (get_product table clock0 7 (file_of ''twins'')) = file_of ''twins'' \<and>
   stock_file no_file = None \<and>
   written (snd (get_product table clock0 7 no_file)) = [Primary_Write ''seed''] \<and>
   fst (consume_stock_item table clock0 7 (file_of ''tainted'')) =
     Inl (save_failed ''surrogates not allowed'') \<and>
   snd (consume_stock_item table clock0 7 (file_of ''tainted'')) \<noteq>
     after_load table (file_of ''tainted'') \<and>
   status_code (save_failed ''surrogates not allowed'') = 500 \<and>
   fst (consume_stock_item table clock0 7 (file_of ''twins'')) =
     Inr (consumed 7 ''A'' (key 7 ''first'' [''k1'', ''k2'']) \<lparr> license = ''k1'' \<rparr> 1) \<and>
   (\<exists>b. written (snd (consume_stock_item table clock0 7 (file_of ''twins''))) =
      [Backup_Write (backup_file clock0) ''twins'', Primary_Write b])"
proof -
  have al: "after_load table (file_of ''twins'') = file_of ''twins''"
    "after_load table (file_of ''tainted'') = file_of ''tainted''"
    by (simp_all add: after_load_def)
  have n: "first_match 99 twins = None"
    by (simp add: first_match_None_iff all_products_twins)
  have f: "consume_stock_item table clock0 99 (file_of ''twins'') =
      (Inl (not_found 99), file_of ''twins'')"
    using load_file_of(1) n by (rule consume_unknown)
  have st: "status_code (not_found 99) = 404" by (simp add: not_found_def)
  have ne: "p_stock (key 7 ''first'' [''k1'', ''k2'']) \<noteq> []" by simp
  have g: "consume_stock_item table clock0 7 (file_of ''twins'') =
     (Inr (consumed 7 ''A'' (key 7 ''first'' [''k1'', ''k2'']) \<lparr> license = ''k1'' \<rparr> 1),
      write_primary ''twins-1'' (write_backup (backup_file clock0) ''twins'' (file_of ''twins'')))"
    using consume_nonempty [OF load_file_of(1) first_match_twins(1) ne, of clock0]
    by (simp add: popped_twins save_twins_1)
  have net: "p_stock (key 7 ''first'' [''k1'', surrogate]) \<noteq> []" by simp
  have svt: "save_stock_data table clock0 (popped 7 tainted) (file_of ''tainted'') =
      (Inl (save_failed ''surrogates not allowed''),
       write_primary ''{'' (write_backup (backup_file clock0) (universal_newlines ''tainted'')
         (file_of ''tainted'')))"
    by (rule save_raises) (simp_all add: decode_table tainted_facts)
  have k: "consume_stock_item table clock0 7 (file_of ''tainted'') =
      (Inl (save_failed ''surrogates not allowed''),
       write_primary ''{'' (write_backup (backup_file clock0) (universal_newlines ''tainted'')
         (file_of ''tainted'')))"
    using consume_nonempty [OF load_file_of(3) tainted_facts(1) net, of clock0] svt by simp
  have kd: "snd (consume_stock_item table clock0 7 (file_of ''tainted'')) \<noteq>
      after_load table (file_of ''tainted'')"
  proof
    assume "snd (consume_stock_item table clock0 7 (file_of ''tainted'')) =
      after_load table (file_of ''tainted'')"
    then have "stock_file (snd (consume_stock_item table clock0 7 (file_of ''tainted''))) =
      stock_file (file_of ''tainted'')"
      by (simp add: al)
    then show False by (simp add: k)
  qed
  note t1 = only_consume_changes_existing_store [of table clock0 "file_of ''twins''" 99 "''A''"]
  note t2 = only_consume_changes_existing_store [of table clock0 "file_of ''twins''" 7 "''A''"]
  note t3 = only_consume_changes_existing_store [of table clock0 no_file 7 "''A''"]
  note t4 = only_consume_changes_existing_store [of table clock0 "file_of ''tainted''" 7 "''A''"]
  have same: "after_load table (file_of ''twins'') = file_of ''twins''"
    using t1 [THEN conjunct2, THEN conjunct2, THEN conjunct2, THEN conjunct2, THEN conjunct2, THEN conjunct2, THEN conjunct2, THEN conjunct2, THEN conjunct2, THEN conjunct1] by simp
  have r1: "snd (consume_stock_item table clock0 99 (file_of ''twins'')) = file_of ''twins''"
    using t1 [THEN conjunct2, THEN conjunct2, THEN conjunct2, THEN conjunct2, THEN conjunct2, THEN conjunct2, THEN conjunct2, THEN conjunct1, rule_format, of "not_found 99"] f st same by simp
  have r2: "snd (get_product table clock0 7 (file_of ''twins'')) = file_of ''twins''"
    using t2 [THEN conjunct2, THEN conjunct2, THEN conjunct1] same by simp
  have r3: "written (snd (get_product table clock0 7 no_file)) = [Primary_Write ''seed'']"
    using t3 [THEN conjunct2, THEN conjunct2, THEN conjunct1] t3 [THEN conjunct2, THEN conjunct2, THEN conjunct2, THEN conjunct2, THEN conjunct2, THEN conjunct2, THEN conjunct2, THEN conjunct2, THEN conjunct2, THEN conjunct2, THEN conjunct1] by (simp add: dump_seed)
  have r4: "status_code (save_failed ''surrogates not allowed'') = 500"
    using t4 [THEN conjunct2, THEN conjunct2, THEN conjunct2, THEN conjunct2, THEN conjunct2, THEN conjunct2, THEN conjunct2, THEN conjunct2, THEN conjunct1, rule_format, of "save_failed ''surrogates not allowed''"] k kd
    by simp
  have r5: "\<exists>b. written (snd (consume_stock_item table clock0 7 (file_of ''twins''))) =
      [Backup_Write (backup_file clock0) ''twins'', Primary_Write b]"
    using t2 [THEN conjunct2, THEN conjunct2, THEN conjunct2, THEN conjunct2, THEN conjunct2, THEN conjunct2, THEN conjunct2, THEN conjunct2, THEN conjunct2, THEN conjunct2, THEN conjunct2, rule_format, of "consumed 7 ''A'' (key 7 ''first'' [''k1'', ''k2''])
        \<lparr> license = ''k1'' \<rparr> 1"] g same
    by auto
  show ?thesis
    using f st r1 r2 r3 k kd r4 g r5 by simp
qed

section \<open>What a consume request changes\<close>

text \<open>
  Claim C8. After a successful consume request the primary file holds the dump of the
  loaded catalog with one change: at the position of the first product with the
  requested id, the product has lost the first item of its stock. The category names,
  their order and the number of products of each are the same; every product at another
  position, and the category of every product, is the same; and the product at that
  position has the same id, name, image, hover image, description, price and delivery
  method as before. (A catalog is determined by its category names, the lengths of its
  product lists and its products in order, lemma \<open>shape_located_eq\<close>.)
\<close>

theorem consume_changes_one_stock_only:
  assumes "load_stock_data lib now s = (Inr cat, s1)"
    and "fst (consume_stock_item lib now pid s) = Inr r"
  shows "\<exists>cat' c p b.
           dump lib cat' = Dumped b \<and>
           stock_file (snd (consume_stock_item lib now pid s)) = Some b \<and>
           map fst cat' = map fst cat \<and> shape cat' = shape cat \<and>
           first_index pid cat < length (located cat) \<and>
           located cat ! first_index pid cat = (c, p) \<and> p_id p = pid \<and>
           located cat' =
             (located cat)[first_index pid cat := (c, p\<lparr>p_stock := tl (p_stock p)\<rparr>)] \<and>
           (\<forall>j < length (located cat). j \<noteq> first_index pid cat \<longrightarrow>
              located cat' ! j = located cat ! j) \<and>
           (\<forall>c' p'. located cat' ! first_index pid cat = (c', p') \<longrightarrow>
              c' = c \<and> p_id p' = p_id p \<and> p_name p' = p_name p \<and> p_image p' = p_image p \<and>
              p_imagehover p' = p_imagehover p \<and> p_description p' = p_description p \<and>
              p_price p' = p_price p \<and> p_delivery_method p' = p_delivery_method p \<and>
              p_stock p' = tl (p_stock p))"
proof -
  have s1: "s1 = after_load lib s" using assms(1) snd_load [of lib now s] by simp
  show ?thesis
  proof (cases rule: consume_outcome [of lib now s pid])
    case (load_fails e)
    from load_fails(2) assms(2) show ?thesis by simp
  next
    case (unknown cat0)
    from unknown(3) assms(2) show ?thesis by simp
  next
    case (empty cat0 c p)
    from empty(4) assms(2) show ?thesis by simp
  next
    case (save_fails cat0 c p e s2)
    from save_fails(5) assms(2) show ?thesis by simp
  next
    case (saved cat0 c p s2)
    from saved(1) assms(1) have c0: "cat0 = cat" by simp
    note fm = saved(2) [unfolded c0]
    let ?cat' = "popped pid cat"
    from save_success_file [OF saved(4)] obtain b where
      d: "dump lib ?cat' = Dumped b" and f: "stock_file s2 = Some b"
      unfolding c0 by blast
    have fl: "stock_file (snd (consume_stock_item lib now pid s)) = Some b"
      by (simp add: saved(5) f)
    have sh: "shape ?cat' = shape cat" by simp
    have names: "map fst ?cat' = map fst cat"
      using arg_cong [OF sh, of "map fst"] by (simp add: shape_def comp_def case_prod_unfold)
    note lo = located_popped [OF fm]
    from first_match_position [OF fm] have
      lt: "first_index pid cat < length (located cat)"
      and at: "located cat ! first_index pid cat = (c, p)" and pid: "p_id p = pid"
      by simp_all
    have others: "\<forall>j < length (located cat). j \<noteq> first_index pid cat \<longrightarrow>
        located ?cat' ! j = located cat ! j"
      by (simp add: lo)
    have target: "\<forall>c' p'. located ?cat' ! first_index pid cat = (c', p') \<longrightarrow>
              c' = c \<and> p_id p' = p_id p \<and> p_name p' = p_name p \<and> p_image p' = p_image p \<and>
              p_imagehover p' = p_imagehover p \<and> p_description p' = p_description p \<and>
              p_price p' = p_price p \<and> p_delivery_method p' = p_delivery_method p \<and>
              p_stock p' = tl (p_stock p)"
      using lt by (auto simp: lo)
    show ?thesis
      by (intro exI [of _ ?cat'] exI [of _ c] exI [of _ p] exI [of _ b] conjI
          d fl names sh lt at pid lo others target)
  qed
qed

theorem consume_changes_one_stock_only_witness:
  "load_stock_data table clock0 (file_of ''twins'') = (Inr twins, file_of ''twins'') \<and>
   fst (consume_stock_item table clock0 7 (file_of ''twins'')) =
     Inr (consumed 7 ''A'' (key 7 ''first'' [''k1'', ''k2'']) \<lparr> license = ''k1'' \<rparr> 1) \<and>
   dump table [(''A'', [key 3 ''x'' [], key 7 ''first'' [''k2'']]),
               (''B'', [key 7 ''second'' [''k3'']])] = Dumped ''twins-1'' \<and>
   stock_file (snd (consume_stock_item table clock0 7 (file_of ''twins''))) = Some ''twins-1''"
proof -
  let ?new = "[(''A'', [key 3 ''x'' [], key 7 ''first'' [''k2'']]),
               (''B'', [key 7 ''second'' [''k3'']])]"
  have h: "load_stock_data table clock0 (file_of ''twins'') = (Inr twins, file_of ''twins'')"
    by (rule load_file_of)
  have ne: "p_stock (key 7 ''first'' [''k1'', ''k2'']) \<noteq> []" by simp
  have g: "fst (consume_stock_item table clock0 7 (file_of ''twins'')) =
     Inr (consumed 7 ''A'' (key 7 ''first'' [''k1'', ''k2'']) \<lparr> license = ''k1'' \<rparr> 1)"
    using consume_nonempty [OF h first_match_twins(1) ne]
    by (simp add: popped_twins save_twins_1)
  from consume_changes_one_stock_only [OF h g] obtain cat' c p b where
    d: "dump table cat' = Dumped b"
    and f: "stock_file (snd (consume_stock_item table clock0 7 (file_of ''twins''))) = Some b"
    and sh: "shape cat' = shape twins"
    and at: "located twins ! first_index 7 twins = (c, p)"
    and lo: "located cat' =
          (located twins)[first_index 7 twins := (c, p\<lparr>p_stock := tl (p_stock p)\<rparr>)]"
    by blast
  from at have cp: "c = ''A''" "p = key 7 ''first'' [''k1'', ''k2'']"
    by (simp_all add: first_match_twins located_twins)
  have "shape twins = shape ?new"
    by (simp add: shape_def twins_def)
  with sh have "shape cat' = shape ?new" by simp
  moreover have "located cat' = located ?new"
    by (simp add: lo cp first_match_twins located_twins key_def)
  ultimately have c': "cat' = ?new" by (rule shape_located_eq)
  have dn: "dump table ?new = Dumped ''twins-1''"
    using dump_twins(2) by (simp add: twins_1_def)
  with d c' have "b = ''twins-1''" by simp
  with f h g dn show ?thesis by simp
qed

text \<open>
  Claim C9, as stated, fails when the save fails: in \<open>tainted_twins\<close> the products at
  positions 0 and 1 of the loop order both have the id 7, and the stock item of the
  later one has a lone surrogate. A consume request for the id 7 removes the item of the
  earlier product, the dump of the changed catalog raises, the request fails with status
  500, and the primary file is left with what the dump had written, which is no document:
  the stock of the later product is no longer in the store.
\<close>

theorem later_duplicate_lost_counterexample:
  "load_stock_data table clock0 (file_of ''tainted twins'') =
     (Inr tainted_twins, file_of ''tainted twins'') \<and>
   located tainted_twins ! 0 = (''A'', key 7 ''first'' [''k1'']) \<and>
   located tainted_twins ! 1 = (''B'', key 7 ''second'' [surrogate]) \<and>
   fst (consume_stock_item table clock0 7 (file_of ''tainted twins'')) =
     Inl (HTTPException 500 ''Error saving stock data: surrogates not allowed'') \<and>
   stock_file (snd (consume_stock_item table clock0 7 (file_of ''tainted twins''))) =
     Some ''{'' \<and>
   load table ''{'' = Inl ''Expecting value''"
proof -
  have ne: "p_stock (key 7 ''first'' [''k1'']) \<noteq> []" by simp
  have sv: "save_stock_data table clock0 (popped 7 tainted_twins) (file_of ''tainted twins'') =
      (Inl (save_failed ''surrogates not allowed''),
       write_primary ''{'' (write_backup (backup_file clock0)
         (universal_newlines ''tainted twins'') (file_of ''tainted twins'')))"
    by (rule save_raises) (simp_all add: decode_table tainted_twins_facts)
  have "consume_stock_item table clock0 7 (file_of ''tainted twins'') =
      (Inl (save_failed ''surrogates not allowed''),
       write_primary ''{'' (write_backup (backup_file clock0)
         (universal_newlines ''tainted twins'') (file_of ''tainted twins'')))"
    using consume_nonempty [OF load_file_of(4) tainted_twins_facts(2) ne] sv by simp
  then show ?thesis
    by (simp add: load_file_of tainted_twins_facts load_table save_failed_def)
qed

text \<open>
  Claim C9, amended. Whether or not other products share the id: when the product at
  position k of the loop order has the requested id and no product before it has, the
  product request returns that product, the stock request reports that product and its
  category, and the consume request acts on it: status 400 when its stock is empty, and
  otherwise the catalog it saves is the loaded one with the first item removed from the
  stock of that product only, so that every product after position k, a later product
  with the same id among them, is as it was. When the save returns, the request succeeds
  with that item and the primary file holds the dump of that catalog; when the save
  fails, the request fails with the save's error, status 500.
\<close>

theorem first_product_with_id_is_used:
  assumes "load_stock_data lib now s = (Inr cat, s1)"
    and "k < length (located cat)" and "located cat ! k = (c, p)" and "p_id p = pid"
    and "\<forall>j<k. p_id (snd (located cat ! j)) \<noteq> pid"
  shows "get_product lib now pid s = (Inr p, s1) \<and>
         get_product_stock lib now pid s = (Inr (stock_summary pid (c, p)), s1) \<and>
         (p_stock p = [] \<longrightarrow> consume_stock_item lib now pid s = (Inl (out_of_stock p), s1)) \<and>
         (p_stock p \<noteq> [] \<longrightarrow>
            shape (popped pid cat) = shape cat \<and>
            located (popped pid cat) = (located cat)[k := (c, p\<lparr>p_stock := tl (p_stock p)\<rparr>)] \<and>
            (\<forall>j. k < j \<and> j < length (located cat) \<longrightarrow>
               located (popped pid cat) ! j = located cat ! j) \<and>
            (\<forall>s2. save_stock_data lib now (popped pid cat) s1 = (Inr True, s2) \<longrightarrow>
               consume_stock_item lib now pid s =
                 (Inr (consumed pid c p (hd (p_stock p)) (length (tl (p_stock p)))), s2) \<and>
               (\<exists>b. dump lib (popped pid cat) = Dumped b \<and> stock_file s2 = Some b)) \<and>
            (\<forall>e s2. save_stock_data lib now (popped pid cat) s1 = (Inl e, s2) \<longrightarrow>
               consume_stock_item lib now pid s = (Inl e, s2) \<and> status_code e = 500))"
proof -
  from position_first_match [OF assms(2-5)] have
    fm: "first_match pid cat = Some (c, p)" and fi: "first_index pid cat = k"
    by simp_all
  have a: "get_product lib now pid s = (Inr p, s1)"
    using assms(1) fm by (simp add: get_product_def get_product_scan_first_match)
  have b: "get_product_stock lib now pid s = (Inr (stock_summary pid (c, p)), s1)"
    using assms(1) fm by (simp add: get_product_stock_def get_product_stock_scan_first_match)
  have e: "p_stock p = [] \<longrightarrow> consume_stock_item lib now pid s = (Inl (out_of_stock p), s1)"
    using assms(1) fm by (simp add: consume_empty)
  have d: "p_stock p \<noteq> [] \<longrightarrow>
            shape (popped pid cat) = shape cat \<and>
            located (popped pid cat) = (located cat)[k := (c, p\<lparr>p_stock := tl (p_stock p)\<rparr>)] \<and>
            (\<forall>j. k < j \<and> j < length (located cat) \<longrightarrow>
               located (popped pid cat) ! j = located cat ! j) \<and>
            (\<forall>s2. save_stock_data lib now (popped pid cat) s1 = (Inr True, s2) \<longrightarrow>
               consume_stock_item lib now pid s =
                 (Inr (consumed pid c p (hd (p_stock p)) (length (tl (p_stock p)))), s2) \<and>
               (\<exists>b. dump lib (popped pid cat) = Dumped b \<and> stock_file s2 = Some b)) \<and>
            (\<forall>e s2. save_stock_data lib now (popped pid cat) s1 = (Inl e, s2) \<longrightarrow>
               consume_stock_item lib now pid s = (Inl e, s2) \<and> status_code e = 500)"
  proof (intro impI conjI allI)
    assume ne: "p_stock p \<noteq> []"
    note lo = located_popped [OF fm, unfolded fi]
    note co = consume_nonempty [OF assms(1) fm ne]
    show "shape (popped pid cat) = shape cat" by simp
    show "located (popped pid cat) = (located cat)[k := (c, p\<lparr>p_stock := tl (p_stock p)\<rparr>)]"
      by (rule lo)
    {
      fix j
      assume "k < j \<and> j < length (located cat)"
      then show "located (popped pid cat) ! j = located cat ! j" by (simp add: lo)
    }
    {
      fix s2
      assume sv: "save_stock_data lib now (popped pid cat) s1 = (Inr True, s2)"
      show "consume_stock_item lib now pid s =
                 (Inr (consumed pid c p (hd (p_stock p)) (length (tl (p_stock p)))), s2)"
        using co sv by simp
      show "\<exists>b. dump lib (popped pid cat) = Dumped b \<and> stock_file s2 = Some b"
        using sv by (rule save_success_file)
    }
    {
      fix e s2
      assume sv: "save_stock_data lib now (popped pid cat) s1 = (Inl e, s2)"
      show "consume_stock_item lib now pid s = (Inl e, s2)" using co sv by simp
      show "status_code e = 500" using sv by (rule save_status)
    }
  qed
  show ?thesis by (intro conjI a b e d)
qed


theorem first_product_with_id_is_used_witness:
  "load_stock_data table clock0 (file_of ''twins'') = (Inr twins, file_of ''twins'') \<and>
   1 < length (located twins) \<and>
   located twins ! 1 = (''A'', key 7 ''first'' [''k1'', ''k2'']) \<and>
   located twins ! 2 = (''B'', key 7 ''second'' [''k3'']) \<and>
   p_id (snd (located twins ! 0)) \<noteq> 7 \<and>
   get_product table clock0 7 (file_of ''twins'') =
     (Inr (key 7 ''first'' [''k1'', ''k2'']), file_of ''twins'') \<and>
   sr_product_name (projr (fst (get_product_stock table clock0 7 (file_of ''twins'')))) = ''first'' \<and>
   sr_category (projr (fst (get_product_stock table clock0 7 (file_of ''twins'')))) = ''A'' \<and>
   sr_stock_count (projr (fst (get_product_stock table clock0 7 (file_of ''twins'')))) = 2 \<and>
   save_stock_data table clock0 (popped 7 twins) (file_of ''twins'') =
     (Inr True,
      write_primary ''twins-1'' (write_backup (backup_file clock0) ''twins'' (file_of ''twins''))) \<and>
   consume_stock_item table clock0 7 (file_of ''twins'') =
     (Inr (consumed 7 ''A'' (key 7 ''first'' [''k1'', ''k2'']) \<lparr> license = ''k1'' \<rparr> 1),
      write_primary ''twins-1'' (write_backup (backup_file clock0) ''twins'' (file_of ''twins''))) \<and>
   located (popped 7 twins) ! 1 = (''A'', key 7 ''first'' [''k2'']) \<and>
   located (popped 7 twins) ! 2 = (''B'', key 7 ''second'' [''k3'']) \<and>
   located twins ! 0 = (''A'', key 3 ''x'' []) \<and>
   consume_stock_item table clock0 3 (file_of ''twins'') =
     (Inl (out_of_stock (key 3 ''x'' [])), file_of ''twins'') \<and>
   load_stock_data table clock0 (file_of ''tainted twins'') =
     (Inr tainted_twins, file_of ''tainted twins'') \<and>
   located tainted_twins ! 0 = (''A'', key 7 ''first'' [''k1'']) \<and>
   fst (save_stock_data table clock0 (popped 7 tainted_twins) (file_of ''tainted twins'')) =
     Inl (save_failed ''surrogates not allowed'') \<and>
   fst (consume_stock_item table clock0 7 (file_of ''tainted twins'')) =
     Inl (save_failed ''surrogates not allowed'')"
proof -
  have h: "load_stock_data table clock0 (file_of ''twins'') = (Inr twins, file_of ''twins'')"
    by (rule load_file_of)
  have ht: "load_stock_data table clock0 (file_of ''tainted twins'') =
     (Inr tainted_twins, file_of ''tainted twins'')"
    by (rule load_file_of)
  have k1: "1 < length (located twins)" by (simp add: located_twins)
  have at1: "located twins ! 1 = (''A'', key 7 ''first'' [''k1'', ''k2''])"
    by (simp add: located_twins)
  have at2: "located twins ! 2 = (''B'', key 7 ''second'' [''k3''])"
    by (simp add: located_twins)
  have id7: "p_id (key 7 ''first'' [''k1'', ''k2'']) = 7" by simp
  have first: "p_id (snd (located twins ! 0)) \<noteq> 7" by (simp add: located_twins)
  then have before1: "\<forall>j<1. p_id (snd (located twins ! j)) \<noteq> 7" by simp
  have k0: "0 < length (located twins)" by (simp add: located_twins)
  have at0: "located twins ! 0 = (''A'', key 3 ''x'' [])" by (simp add: located_twins)
  have id3: "p_id (key 3 ''x'' []) = 3" by simp
  have before0: "\<forall>j<0. p_id (snd (located twins ! j)) \<noteq> 3" by simp
  have kt: "0 < length (located tainted_twins)" by (simp add: tainted_twins_facts)
  have att: "located tainted_twins ! 0 = (''A'', key 7 ''first'' [''k1''])"
    by (simp add: tainted_twins_facts)
  have idt: "p_id (key 7 ''first'' [''k1'']) = 7" by simp
  have beforet: "\<forall>j<0. p_id (snd (located tainted_twins ! j)) \<noteq> 7" by simp
  note t7 = first_product_with_id_is_used [OF h k1 at1 id7 before1]
  note t3 = first_product_with_id_is_used [OF h k0 at0 id3 before0]
  note tt = first_product_with_id_is_used [OF ht kt att idt beforet]
  have a: "get_product table clock0 7 (file_of ''twins'') =
      (Inr (key 7 ''first'' [''k1'', ''k2'']), file_of ''twins'')"
    using t7 [THEN conjunct1] .
  have b: "get_product_stock table clock0 7 (file_of ''twins'') =
      (Inr (stock_summary 7 (''A'', key 7 ''first'' [''k1'', ''k2''])), file_of ''twins'')"
    using t7 [THEN conjunct2, THEN conjunct1] .
  have b1: "sr_product_name (projr (fst (get_product_stock table clock0 7 (file_of ''twins'')))) =
      ''first''"
    and b2: "sr_category (projr (fst (get_product_stock table clock0 7 (file_of ''twins'')))) = ''A''"
    and b3: "sr_stock_count (projr (fst (get_product_stock table clock0 7 (file_of ''twins'')))) = 2"
    by (simp_all add: b stock_summary_def key_def)
  have ne: "p_stock (key 7 ''first'' [''k1'', ''k2'']) \<noteq> []" by simp
  have sv: "save_stock_data table clock0 (popped 7 twins) (file_of ''twins'') =
     (Inr True,
      write_primary ''twins-1'' (write_backup (backup_file clock0) ''twins'' (file_of ''twins'')))"
    by (simp add: popped_twins save_twins_1)
  note c7 = t7 [THEN conjunct2, THEN conjunct2, THEN conjunct2, THEN mp, OF ne]
  have c: "consume_stock_item table clock0 7 (file_of ''twins'') =
     (Inr (consumed 7 ''A'' (key 7 ''first'' [''k1'', ''k2'']) \<lparr> license = ''k1'' \<rparr> 1),
      write_primary ''twins-1'' (write_backup (backup_file clock0) ''twins'' (file_of ''twins'')))"
    using c7 [THEN conjunct2, THEN conjunct2, THEN conjunct2, THEN conjunct1, rule_format, OF sv]
    by simp
  have l1: "located (popped 7 twins) ! 1 = (''A'', key 7 ''first'' [''k2''])"
    using c7 [THEN conjunct2, THEN conjunct1] by (simp add: located_twins key_def)
  have l2: "located (popped 7 twins) ! 2 = (''B'', key 7 ''second'' [''k3''])"
    using c7 [THEN conjunct2, THEN conjunct2, THEN conjunct1, rule_format, of 2] at2
    by (simp add: located_twins)
  have e: "consume_stock_item table clock0 3 (file_of ''twins'') =
      (Inl (out_of_stock (key 3 ''x'' [])), file_of ''twins'')"
    using t3 [THEN conjunct2, THEN conjunct2, THEN conjunct1] by simp
  have net: "p_stock (key 7 ''first'' [''k1'']) \<noteq> []" by simp
  have svt: "save_stock_data table clock0 (popped 7 tainted_twins) (file_of ''tainted twins'') =
      (Inl (save_failed ''surrogates not allowed''),
       write_primary ''{'' (write_backup (backup_file clock0)
         (universal_newlines ''tainted twins'') (file_of ''tainted twins'')))"
    by (rule save_raises) (simp_all add: decode_table tainted_twins_facts)
  note ct = tt [THEN conjunct2, THEN conjunct2, THEN conjunct2, THEN mp, OF net]
  have f: "fst (consume_stock_item table clock0 7 (file_of ''tainted twins'')) =
     Inl (save_failed ''surrogates not allowed'')"
    using ct [THEN conjunct2, THEN conjunct2, THEN conjunct2, THEN conjunct2, rule_format, OF svt]
    by simp
  show ?thesis
    using h k1 at1 at2 first a b1 b2 b3 sv c l1 l2 at0 e ht att svt f by simp
qed

end
